theory Spec2Isabelle
  imports Main "HOL-Library.AList"
begin

section \<open>Values shared by the hooks and the services\<close>

text \<open>
  A document identity is a string. A thrown JavaScript value is a plain
  \<^verbatim>\<open>Error\<close> (its message and its stack), a \<^verbatim>\<open>TurboFirestoreException\<close>, or a
  value that is no \<^verbatim>\<open>Error\<close> at all.
\<close>

type_synonym ident = string

type_synonym json = "(string \<times> string) list"

subsection \<open>TurboFirestoreException and its subclasses\<close>

text \<open>
  The class of an exception object: the base class or one of the seven subclasses
  declared after it.
\<close>

datatype exc_class =
    BaseException
  | PermissionDeniedException
  | UnavailableException
  | NotFoundException
  | AlreadyExistsException
  | CancelledException
  | DeadlineExceededException
  | GenericException

record TurboFirestoreException =
  exc_class :: exc_class
  exc_message :: string
  exc_code :: string
  exc_path :: "string option"
  exc_query :: "string option"
  exc_stackTrace :: "string option"

text \<open>The fields of a \<^verbatim>\<open>FirestoreError\<close> that the mapping reads.\<close>

record FirestoreError =
  fe_message :: string
  fe_code :: string
  fe_stack :: "string option"

text \<open>
  \<^verbatim>\<open>new C(message, code, path, query, stackTrace)\<close> for a class \<open>C\<close> of the hierarchy:
  every constructor passes its five arguments to the base constructor unchanged.
\<close>

definition new_exception ::
  "exc_class \<Rightarrow> string \<Rightarrow> string \<Rightarrow> string option \<Rightarrow> string option \<Rightarrow> string option
    \<Rightarrow> TurboFirestoreException" where
  "new_exception c m cd p q st =
     \<lparr>exc_class = c, exc_message = m, exc_code = cd, exc_path = p, exc_query = q,
      exc_stackTrace = st\<rparr>"

text \<open>
  \<^verbatim>\<open>TurboFirestoreException.fromFirestoreError(error, path?, query?)\<close>: a switch on
  \<^verbatim>\<open>error.code\<close> with six cases and a default.
\<close>

definition fromFirestoreError ::
  "FirestoreError \<Rightarrow> string option \<Rightarrow> string option \<Rightarrow> TurboFirestoreException" where
  "fromFirestoreError error path query =
     (let stackTrace = fe_stack error in
      if fe_code error = ''permission-denied'' then
        new_exception PermissionDeniedException (fe_message error) (fe_code error) path query stackTrace
      else if fe_code error = ''unavailable'' then
        new_exception UnavailableException (fe_message error) (fe_code error) path query stackTrace
      else if fe_code error = ''not-found'' then
        new_exception NotFoundException (fe_message error) (fe_code error) path query stackTrace
      else if fe_code error = ''already-exists'' then
        new_exception AlreadyExistsException (fe_message error) (fe_code error) path query stackTrace
      else if fe_code error = ''cancelled'' then
        new_exception CancelledException (fe_message error) (fe_code error) path query stackTrace
      else if fe_code error = ''deadline-exceeded'' then
        new_exception DeadlineExceededException (fe_message error) (fe_code error) path query stackTrace
      else
        new_exception GenericException (fe_message error) (fe_code error) path query stackTrace)"

subsection \<open>Thrown values, results and promises\<close>

datatype thrown =
    Error string "string option"
  | TurboError TurboFirestoreException
  | NonError string

text \<open>
  \<^verbatim>\<open>new Error(message)\<close> made by the code itself. The stack that the engine attaches
  to it is left out: nothing in the repository reads the stack of an error it has made.
\<close>

definition newError :: "string \<Rightarrow> thrown" where
  "newError m = Error m None"

text \<open>
  A \<^verbatim>\<open>TurboResponse\<close>: \<^verbatim>\<open>success(result, title?, message?)\<close> or
  \<^verbatim>\<open>fail(error, title?, message?, stackTrace?)\<close>.
\<close>

record failure =
  fail_error :: thrown
  fail_title :: "string option"
  fail_message :: "string option"
  fail_stackTrace :: "string option"

datatype 'a TurboResponse = Success 'a | Fail failure

definition fail :: "thrown \<Rightarrow> string option \<Rightarrow> string option \<Rightarrow> string option \<Rightarrow> 'a TurboResponse" where
  "fail e t m st = Fail \<lparr>fail_error = e, fail_title = t, fail_message = m, fail_stackTrace = st\<rparr>"

fun isSuccess :: "'a TurboResponse \<Rightarrow> bool" where
  "isSuccess (Success _) = True"
| "isSuccess (Fail _) = False"

fun isFail :: "'a TurboResponse \<Rightarrow> bool" where
  "isFail (Success _) = False"
| "isFail (Fail _) = True"

text \<open>
  \<^verbatim>\<open>fail(response.error, response.title, response.message, response.stackTrace)\<close>:
  a failed response is passed on to the caller under another result type.
\<close>

definition refail :: "failure \<Rightarrow> 'a TurboResponse" where
  "refail f = fail (fail_error f) (fail_title f) (fail_message f) (fail_stackTrace f)"

text \<open>
  How an \<^verbatim>\<open>async\<close> function settles: it resolves with a value, or it rejects
  with the value thrown inside it and not caught.
\<close>

datatype 'a promise = Resolved 'a | Rejected thrown

section \<open>TurboFirestoreApi.docExists\<close>

text \<open>
  The remote read \<^verbatim>\<open>getDoc(docRef)\<close> either yields a snapshot, of which only
  \<^verbatim>\<open>exists()\<close> is read, or throws. Building the reference
  (\<^verbatim>\<open>getDocRefById\<close>) may throw as well. Both happen inside the
  \<^verbatim>\<open>try\<close> block, whose handler returns \<^verbatim>\<open>false\<close>.
\<close>

record store =
  getDocRefById :: "ident \<Rightarrow> string option \<Rightarrow> thrown + string"
  getDoc :: "string \<Rightarrow> thrown + bool"

definition docExists :: "store \<Rightarrow> ident \<Rightarrow> string option \<Rightarrow> bool promise" where
  "docExists st i collectionPathOverride =
     (case getDocRefById st i collectionPathOverride of
        Inl _ \<Rightarrow> Resolved False
      | Inr docRef \<Rightarrow>
          (case getDoc st docRef of
             Inl _ \<Rightarrow> Resolved False
           | Inr ex \<Rightarrow> Resolved ex))"

section \<open>Documents, transforms and the remote API\<close>

text \<open>
  A document (\<^verbatim>\<open>T extends TurboWriteableId\<close>) has an \<^verbatim>\<open>id\<close> and a
  \<^verbatim>\<open>toJson()\<close> method; the method's behaviour belongs to the object, so the field
  \<open>doc_toJson\<close> holds what a call of it gives: a thrown value or the serialised record.
\<close>

record doc =
  doc_id :: ident
  doc_fields :: json
  doc_toJson :: "thrown + json"

record TurboAuthVars =
  vars_id :: ident
  vars_now :: nat
  vars_userId :: string

text \<open>The caller-supplied transforms; \<open>Inl\<close> is a transform that throws.\<close>

type_synonym CreateDocDef = "TurboAuthVars \<Rightarrow> thrown + doc"
type_synonym UpdateDocDef = "doc \<Rightarrow> TurboAuthVars \<Rightarrow> thrown + doc"
type_synonym UpsertDocDef = "doc option \<Rightarrow> TurboAuthVars \<Rightarrow> thrown + doc"

text \<open>
  What a call of the caller's \<^verbatim>\<open>getUserId()\<close> gives: it throws, or it returns a user
  id or \<^verbatim>\<open>null\<close>.
\<close>

type_synonym userIdGetter = "thrown + string option"

text \<open>
  An optional callback of the caller (\<^verbatim>\<open>cb?.(x)\<close>): absent, or a function that
  returns (\<open>None\<close>) or throws (\<open>Some\<close> the thrown value).
\<close>

type_synonym 'a callback = "('a \<Rightarrow> thrown option) option"

definition optionalCall :: "'a callback \<Rightarrow> 'a \<Rightarrow> thrown option" where
  "optionalCall cb x = (case cb of None \<Rightarrow> None | Some f \<Rightarrow> f x)"

text \<open>The operations of the Remote Store that a mutation invokes, in the order invoked.\<close>

datatype remote_call =
    CreateDoc doc ident bool
  | UpdateDoc ident json
  | DeleteDoc ident
  | BatchSet doc ident
  | BatchUpdate ident json
  | BatchDelete ident
  | BatchCommit

text \<open>
  \<^verbatim>\<open>TurboFirestoreApi\<close> as the mutations use it. The getter \<^verbatim>\<open>genId\<close> builds a
  document reference and may throw; the getter \<^verbatim>\<open>writeBatch\<close> asks the store for a
  batch and may throw (\<open>Some\<close> the value). Every point operation and every staging
  operation is one \<^verbatim>\<open>try\<close> block that returns a \<^verbatim>\<open>TurboResponse\<close>;
  \<^verbatim>\<open>batch.commit()\<close> is the store's own and throws on failure (\<open>Some\<close> the value).
  \<open>api_createDoc\<close> takes the writeable, the id and the merge flag.
\<close>

record api =
  api_genId :: "thrown + ident"
  api_now :: nat
  api_createDoc :: "doc \<Rightarrow> ident \<Rightarrow> bool \<Rightarrow> unit TurboResponse"
  api_updateDoc :: "ident \<Rightarrow> json \<Rightarrow> unit TurboResponse"
  api_deleteDoc :: "ident \<Rightarrow> unit TurboResponse"
  api_writeBatch :: "thrown option"
  api_createDocInBatch :: "doc \<Rightarrow> ident \<Rightarrow> unit TurboResponse"
  api_updateDocInBatch :: "ident \<Rightarrow> json \<Rightarrow> unit TurboResponse"
  api_deleteDocInBatch :: "ident \<Rightarrow> unit TurboResponse"
  batch_commit :: "remote_call list \<Rightarrow> thrown option"

text \<open>
  What a mutation leaves behind once its promise has settled: how it settled, the local
  mirror, and the remote operations it invoked. The mutation runs alone: no other
  mutation and no snapshot changes the mirror between its start and its end.
\<close>

record ('a, 'm) settled =
  outcome :: "'a TurboResponse promise"
  mirror :: 'm
  remote_calls :: "remote_call list"

definition settle :: "'a TurboResponse promise \<Rightarrow> 'm \<Rightarrow> remote_call list \<Rightarrow> ('a, 'm) settled" where
  "settle out m cs = \<lparr>outcome = out, mirror = m, remote_calls = cs\<rparr>"

definition quoted :: "string \<Rightarrow> string" where
  "quoted s = CHR 0x22 # s @ [CHR 0x22]"

section \<open>useTurboCollection\<close>

text \<open>
  The hook's state is a \<^verbatim>\<open>Map<string, T>\<close>. A mutation callback meets it twice: it
  reads the map \<^verbatim>\<open>docsById\<close> of the render that made the callback (through
  \<^verbatim>\<open>tryFindById\<close>), and it writes with \<^verbatim>\<open>setDocsById(prev => ...)\<close>, which
  works on the state as it is when the write runs. The mutations below take both: the
  render's map \<open>docsById\<close> and the current state \<open>state\<close>; the mirror they leave is
  the new state.
\<close>

type_synonym docsById = "ident \<rightharpoonup> doc"

text \<open>
  \<^verbatim>\<open>createAuthVars\<close>: \<^verbatim>\<open>api.turboVars()\<close> first, then \<^verbatim>\<open>getUserId() ?? ''\<close>.
\<close>

definition createAuthVars :: "api \<Rightarrow> userIdGetter \<Rightarrow> thrown + TurboAuthVars" where
  "createAuthVars a getUserId =
     (case api_genId a of
        Inl t \<Rightarrow> Inl t
      | Inr i \<Rightarrow>
          (case getUserId of
             Inl t \<Rightarrow> Inl t
           | Inr u \<Rightarrow>
               Inr \<lparr>vars_id = i, vars_now = api_now a,
                    vars_userId = (case u of None \<Rightarrow> [] | Some x \<Rightarrow> x)\<rparr>))"

text \<open>\<^verbatim>\<open>tryFindById\<close>: \<^verbatim>\<open>if (!id) return null\<close> makes the empty id never found.\<close>

definition tryFindById :: "docsById \<Rightarrow> ident \<Rightarrow> doc option" where
  "tryFindById docsById i = (if i = [] then None else docsById i)"

definition useTurboCollection_createDoc ::
  "api \<Rightarrow> userIdGetter \<Rightarrow> CreateDocDef \<Rightarrow> docsById \<Rightarrow> (doc, docsById) settled" where
  "useTurboCollection_createDoc a getUserId def state =
     (case createAuthVars a getUserId of
        Inl t \<Rightarrow> settle (Rejected t) state []
      | Inr vars \<Rightarrow>
          (case def vars of
             Inl t \<Rightarrow> settle (Rejected t) state []
           | Inr newDoc \<Rightarrow>
               (let updated = state(doc_id newDoc \<mapsto> newDoc);
                    response = api_createDoc a newDoc (doc_id newDoc) False in
                case response of
                  Fail f \<Rightarrow>
                    settle (Resolved (refail f)) (updated(doc_id newDoc := None))
                      [CreateDoc newDoc (doc_id newDoc) False]
                | Success _ \<Rightarrow>
                    settle (Resolved (Success newDoc)) updated
                      [CreateDoc newDoc (doc_id newDoc) False])))"

definition useTurboCollection_updateDoc ::
  "api \<Rightarrow> userIdGetter \<Rightarrow> ident \<Rightarrow> UpdateDocDef \<Rightarrow> docsById \<Rightarrow> docsById
    \<Rightarrow> (doc, docsById) settled" where
  "useTurboCollection_updateDoc a getUserId i def docsById state =
     (case tryFindById docsById i of
        None \<Rightarrow>
          settle (Resolved (fail (newError (''Document with id '' @ quoted i @ '' not found''))
              (Some ''Update Failed'')
              (Some (''Cannot update non-existent document with id '' @ quoted i)) None))
            state []
      | Some current \<Rightarrow>
          (case createAuthVars a getUserId of
             Inl t \<Rightarrow> settle (Rejected t) state []
           | Inr vars \<Rightarrow>
               (case def current vars of
                  Inl t \<Rightarrow> settle (Rejected t) state []
                | Inr updatedDoc \<Rightarrow>
                    (let previousDoc = current;
                         updated = state(i \<mapsto> updatedDoc) in
                     case doc_toJson updatedDoc of
                       Inl t \<Rightarrow> settle (Rejected t) updated []
                     | Inr data \<Rightarrow>
                         (case api_updateDoc a i data of
                            Fail f \<Rightarrow>
                              settle (Resolved (refail f)) (updated(i \<mapsto> previousDoc))
                                [UpdateDoc i data]
                          | Success _ \<Rightarrow>
                              settle (Resolved (Success updatedDoc)) updated
                                [UpdateDoc i data])))))"

definition useTurboCollection_upsertDoc ::
  "api \<Rightarrow> userIdGetter \<Rightarrow> ident \<Rightarrow> UpsertDocDef \<Rightarrow> docsById \<Rightarrow> docsById
    \<Rightarrow> (doc, docsById) settled" where
  "useTurboCollection_upsertDoc a getUserId i def docsById state =
     (let current = tryFindById docsById i in
      case createAuthVars a getUserId of
        Inl t \<Rightarrow> settle (Rejected t) state []
      | Inr vars \<Rightarrow>
          (case def current vars of
             Inl t \<Rightarrow> settle (Rejected t) state []
           | Inr upsertedDoc \<Rightarrow>
               (let previousDoc = current;
                    updated = state(i \<mapsto> upsertedDoc) in
                case api_createDoc a upsertedDoc i True of
                  Fail f \<Rightarrow>
                    settle (Resolved (refail f))
                      (case previousDoc of
                         Some p \<Rightarrow> updated(i \<mapsto> p)
                       | None \<Rightarrow> updated(i := None))
                      [CreateDoc upsertedDoc i True]
                | Success _ \<Rightarrow>
                    settle (Resolved (Success upsertedDoc)) updated
                      [CreateDoc upsertedDoc i True])))"

definition useTurboCollection_deleteDoc ::
  "api \<Rightarrow> ident \<Rightarrow> docsById \<Rightarrow> docsById \<Rightarrow> (unit, docsById) settled" where
  "useTurboCollection_deleteDoc a i docsById state =
     (case tryFindById docsById i of
        None \<Rightarrow>
          settle (Resolved (fail (newError (''Document with id '' @ quoted i @ '' not found''))
              (Some ''Delete Failed'')
              (Some (''Cannot delete non-existent document with id '' @ quoted i)) None))
            state []
      | Some current \<Rightarrow>
          (let updated = state(i := None) in
           case api_deleteDoc a i of
             Fail f \<Rightarrow> settle (Resolved (refail f)) (updated(i \<mapsto> current)) [DeleteDoc i]
           | Success _ \<Rightarrow> settle (Resolved (Success ())) updated [DeleteDoc i]))"

subsection \<open>Batch mutations\<close>

text \<open>
  \<^verbatim>\<open>defs.map(def => def(vars))\<close> and the staging loops: the first throw ends the
  loop and leaves the function.
\<close>

fun map_throwing :: "('a \<Rightarrow> thrown + 'b) \<Rightarrow> 'a list \<Rightarrow> thrown + 'b list" where
  "map_throwing f [] = Inr []"
| "map_throwing f (x # xs) =
     (case f x of
        Inl t \<Rightarrow> Inl t
      | Inr y \<Rightarrow> (case map_throwing f xs of Inl t \<Rightarrow> Inl t | Inr ys \<Rightarrow> Inr (y # ys)))"

text \<open>The three \<^verbatim>\<open>forEach\<close> loops over a copy of the map.\<close>

definition setAll :: "doc list \<Rightarrow> docsById \<Rightarrow> docsById" where
  "setAll docs m = fold (\<lambda>d u. u(doc_id d \<mapsto> d)) docs m"

definition deleteAll :: "ident list \<Rightarrow> docsById \<Rightarrow> docsById" where
  "deleteAll ids m = fold (\<lambda>i u. u(i := None)) ids m"

definition restoreAll :: "(ident \<times> doc) list \<Rightarrow> docsById \<Rightarrow> docsById" where
  "restoreAll previousDocs m = fold (\<lambda>(i, d) u. u(i \<mapsto> d)) previousDocs m"

text \<open>\<^verbatim>\<open>batchResults.find(r => !isSuccess(r))\<close>\<close>

definition failedResult :: "'a TurboResponse list \<Rightarrow> 'a TurboResponse option" where
  "failedResult batchResults = find (\<lambda>r. \<not> isSuccess r) batchResults"

definition useTurboCollection_createDocs ::
  "api \<Rightarrow> userIdGetter \<Rightarrow> CreateDocDef list \<Rightarrow> docsById \<Rightarrow> (doc list, docsById) settled" where
  "useTurboCollection_createDocs a getUserId defs state =
     (case createAuthVars a getUserId of
        Inl t \<Rightarrow> settle (Rejected t) state []
      | Inr vars \<Rightarrow>
          (case map_throwing (\<lambda>def. def vars) defs of
             Inl t \<Rightarrow> settle (Rejected t) state []
           | Inr newDocs \<Rightarrow>
               (let updated = setAll newDocs state in
                case api_writeBatch a of
                  Some t \<Rightarrow> settle (Rejected t) updated []
                | None \<Rightarrow>
                    (let staged = map (\<lambda>d. BatchSet d (doc_id d)) newDocs;
                         batchResults = map (\<lambda>d. api_createDocInBatch a d (doc_id d)) newDocs in
                     case failedResult batchResults of
                       Some (Fail f) \<Rightarrow>
                         settle (Resolved (refail f)) (deleteAll (map doc_id newDocs) updated)
                           staged
                     | _ \<Rightarrow>
                         (case batch_commit a staged of
                            None \<Rightarrow>
                              settle (Resolved (Success newDocs)) updated (staged @ [BatchCommit])
                          | Some error \<Rightarrow>
                              settle (Resolved (fail error (Some ''Batch Create Failed'')
                                  (Some ''Failed to commit batch create operation'') None))
                                (deleteAll (map doc_id newDocs) updated)
                                (staged @ [BatchCommit]))))))"

text \<open>
  The first loop of \<^verbatim>\<open>updateDocs\<close>: it reads the documents of the render's map
  through \<^verbatim>\<open>tryFindById\<close>, returns a failure at the first id not found, and otherwise
  fills \<^verbatim>\<open>previousDocs\<close> (a \<^verbatim>\<open>Map\<close>, kept in insertion order) and
  \<^verbatim>\<open>updatedDocs\<close>.
\<close>

fun collect_updates ::
  "docsById \<Rightarrow> TurboAuthVars \<Rightarrow> (ident \<times> UpdateDocDef) list \<Rightarrow> (ident \<times> doc) list \<Rightarrow> doc list
    \<Rightarrow> doc list TurboResponse promise + ((ident \<times> doc) list \<times> doc list)" where
  "collect_updates m vars [] previousDocs updatedDocs = Inr (previousDocs, updatedDocs)"
| "collect_updates m vars ((i, def) # rest) previousDocs updatedDocs =
     (case tryFindById m i of
        None \<Rightarrow>
          Inl (Resolved (fail (newError (''Document with id '' @ quoted i @ '' not found''))
            (Some ''Batch Update Failed'')
            (Some (''Cannot update non-existent document with id '' @ quoted i)) None))
      | Some current \<Rightarrow>
          (case def current vars of
             Inl t \<Rightarrow> Inl (Rejected t)
           | Inr d \<Rightarrow>
               collect_updates m vars rest (AList.update i current previousDocs)
                 (updatedDocs @ [d])))"

text \<open>Staging one updated document: \<^verbatim>\<open>doc.toJson()\<close> may throw before the API is called.\<close>

definition stage_update :: "api \<Rightarrow> doc \<Rightarrow> thrown + (unit TurboResponse \<times> remote_call)" where
  "stage_update a d =
     (case doc_toJson d of
        Inl t \<Rightarrow> Inl t
      | Inr data \<Rightarrow> Inr (api_updateDocInBatch a (doc_id d) data, BatchUpdate (doc_id d) data))"

definition useTurboCollection_updateDocs ::
  "api \<Rightarrow> userIdGetter \<Rightarrow> (ident \<times> UpdateDocDef) list \<Rightarrow> docsById \<Rightarrow> docsById
    \<Rightarrow> (doc list, docsById) settled" where
  "useTurboCollection_updateDocs a getUserId updates docsById state =
     (case createAuthVars a getUserId of
        Inl t \<Rightarrow> settle (Rejected t) state []
      | Inr vars \<Rightarrow>
          (case collect_updates docsById vars updates [] [] of
             Inl out \<Rightarrow> settle out state []
           | Inr (previousDocs, updatedDocs) \<Rightarrow>
               (let updated = setAll updatedDocs state in
                case api_writeBatch a of
                  Some t \<Rightarrow> settle (Rejected t) updated []
                | None \<Rightarrow>
                    (case map_throwing (stage_update a) updatedDocs of
                       Inl t \<Rightarrow> settle (Rejected t) updated []
                     | Inr results \<Rightarrow>
                         (let batchResults = map fst results;
                              staged = map snd results in
                          case failedResult batchResults of
                            Some (Fail f) \<Rightarrow>
                              settle (Resolved (refail f)) (restoreAll previousDocs updated) staged
                          | _ \<Rightarrow>
                              (case batch_commit a staged of
                                 None \<Rightarrow>
                                   settle (Resolved (Success updatedDocs)) updated
                                     (staged @ [BatchCommit])
                               | Some error \<Rightarrow>
                                   settle (Resolved (fail error (Some ''Batch Update Failed'')
                                       (Some ''Failed to commit batch update operation'') None))
                                     (restoreAll previousDocs updated)
                                     (staged @ [BatchCommit])))))))"

text \<open>The first loop of \<^verbatim>\<open>deleteDocs\<close>, on the render's map.\<close>

fun collect_deletes ::
  "docsById \<Rightarrow> ident list \<Rightarrow> (ident \<times> doc) list
    \<Rightarrow> unit TurboResponse promise + (ident \<times> doc) list" where
  "collect_deletes m [] previousDocs = Inr previousDocs"
| "collect_deletes m (i # rest) previousDocs =
     (case tryFindById m i of
        None \<Rightarrow>
          Inl (Resolved (fail (newError (''Document with id '' @ quoted i @ '' not found''))
            (Some ''Batch Delete Failed'')
            (Some (''Cannot delete non-existent document with id '' @ quoted i)) None))
      | Some current \<Rightarrow> collect_deletes m rest (AList.update i current previousDocs))"

definition useTurboCollection_deleteDocs ::
  "api \<Rightarrow> ident list \<Rightarrow> docsById \<Rightarrow> docsById \<Rightarrow> (unit, docsById) settled" where
  "useTurboCollection_deleteDocs a ids docsById state =
     (case collect_deletes docsById ids [] of
        Inl out \<Rightarrow> settle out state []
      | Inr previousDocs \<Rightarrow>
          (let updated = deleteAll ids state in
           case api_writeBatch a of
             Some t \<Rightarrow> settle (Rejected t) updated []
           | None \<Rightarrow>
               (let staged = map BatchDelete ids;
                    batchResults = map (api_deleteDocInBatch a) ids in
                case failedResult batchResults of
                  Some (Fail f) \<Rightarrow>
                    settle (Resolved (refail f)) (restoreAll previousDocs updated) staged
                | _ \<Rightarrow>
                    (case batch_commit a staged of
                       None \<Rightarrow> settle (Resolved (Success ())) updated (staged @ [BatchCommit])
                     | Some error \<Rightarrow>
                         settle (Resolved (fail error (Some ''Batch Delete Failed'')
                             (Some ''Failed to commit batch delete operation'') None))
                           (restoreAll previousDocs updated) (staged @ [BatchCommit])))))"

section \<open>useTurboDocument\<close>

text \<open>
  The hook keeps the document twice: in the state \<^verbatim>\<open>doc\<close> that it returns, and in
  \<^verbatim>\<open>previousDocRef\<close>, which the mutations read. The state starts at
  \<^verbatim>\<open>initialValueLocator?.() ?? null\<close>, the ref at \<^verbatim>\<open>null\<close>.
\<close>

record documentHook =
  hook_doc :: "doc option"
  previousDocRef :: "doc option"

text \<open>The optional callbacks among the hook's options.\<close>

record documentHookOptions =
  beforeLocalUpdate :: "doc option callback"
  afterLocalUpdate :: "doc option callback"
  hook_onError :: "TurboFirestoreException callback"

definition useTurboDocument_init :: "doc option \<Rightarrow> documentHook" where
  "useTurboDocument_init initialValue = \<lparr>hook_doc = initialValue, previousDocRef = None\<rparr>"

text \<open>
  \<^verbatim>\<open>updateLocalState(newDoc)\<close>: \<^verbatim>\<open>beforeLocalUpdate\<close>, the two writes,
  \<^verbatim>\<open>afterLocalUpdate\<close>. A callback that throws ends it there: before the writes, or
  after them. The result is the thrown value, if any, and the state.
\<close>

definition updateLocalState ::
  "documentHookOptions \<Rightarrow> doc option \<Rightarrow> documentHook \<Rightarrow> thrown option \<times> documentHook" where
  "updateLocalState opts newDoc s =
     (case optionalCall (beforeLocalUpdate opts) newDoc of
        Some t \<Rightarrow> (Some t, s)
      | None \<Rightarrow>
          (let s1 = s\<lparr>hook_doc := newDoc, previousDocRef := newDoc\<rparr> in
           case optionalCall (afterLocalUpdate opts) newDoc of
             Some t \<Rightarrow> (Some t, s1)
           | None \<Rightarrow> (None, s1)))"


text \<open>
  \<^verbatim>\<open>generateAuthVars\<close>: \<^verbatim>\<open>getUserId()\<close> first, then \<^verbatim>\<open>api.turboVars()\<close>.
\<close>

definition generateAuthVars :: "api \<Rightarrow> userIdGetter \<Rightarrow> thrown + TurboAuthVars" where
  "generateAuthVars a getUserId =
     (case getUserId of
        Inl t \<Rightarrow> Inl t
      | Inr u \<Rightarrow>
          (case api_genId a of
             Inl t \<Rightarrow> Inl t
           | Inr i \<Rightarrow>
               Inr \<lparr>vars_id = i, vars_now = api_now a,
                    vars_userId = (case u of None \<Rightarrow> [] | Some x \<Rightarrow> x)\<rparr>))"

text \<open>
  The end of the four mutations: with the response of the store in hand, a failure is
  answered by \<^verbatim>\<open>updateLocalState(previousDoc)\<close> and \<^verbatim>\<open>fail(...)\<close>, a success by
  \<^verbatim>\<open>success(...)\<close>.
\<close>

definition confirmOrRollback ::
  "documentHookOptions \<Rightarrow> unit TurboResponse \<Rightarrow> 'a \<Rightarrow> doc option \<Rightarrow> remote_call
    \<Rightarrow> documentHook \<Rightarrow> ('a, documentHook) settled" where
  "confirmOrRollback opts response result previousDoc call s1 =
     (case response of
        Fail f \<Rightarrow>
          (case updateLocalState opts previousDoc s1 of
             (Some t, s2) \<Rightarrow> settle (Rejected t) s2 [call]
           | (None, s2) \<Rightarrow> settle (Resolved (refail f)) s2 [call])
      | Success _ \<Rightarrow> settle (Resolved (Success result)) s1 [call])"

definition useTurboDocument_createDoc ::
  "documentHookOptions \<Rightarrow> api \<Rightarrow> userIdGetter \<Rightarrow> ident \<Rightarrow> CreateDocDef \<Rightarrow> documentHook
    \<Rightarrow> (doc, documentHook) settled" where
  "useTurboDocument_createDoc opts a getUserId documentId def s =
     (case generateAuthVars a getUserId of
        Inl t \<Rightarrow> settle (Rejected t) s []
      | Inr vars \<Rightarrow>
          (case def vars of
             Inl t \<Rightarrow> settle (Rejected t) s []
           | Inr newDoc \<Rightarrow>
               (let previousDoc = previousDocRef s in
                case updateLocalState opts (Some newDoc) s of
                  (Some t, s1) \<Rightarrow> settle (Rejected t) s1 []
                | (None, s1) \<Rightarrow>
                    confirmOrRollback opts (api_createDoc a newDoc documentId False) newDoc
                      previousDoc (CreateDoc newDoc documentId False) s1)))"

definition useTurboDocument_updateDoc ::
  "documentHookOptions \<Rightarrow> api \<Rightarrow> userIdGetter \<Rightarrow> ident \<Rightarrow> UpdateDocDef \<Rightarrow> documentHook
    \<Rightarrow> (doc, documentHook) settled" where
  "useTurboDocument_updateDoc opts a getUserId documentId def s =
     (case previousDocRef s of
        None \<Rightarrow>
          (let error = new_exception BaseException ''Cannot update: document does not exist''
                         ''not-found'' (Some documentId) None None in
           case optionalCall (hook_onError opts) error of
             Some t \<Rightarrow> settle (Rejected t) s []
           | None \<Rightarrow>
               settle (Resolved (fail (TurboError error) None (Some (exc_message error))
                   (exc_stackTrace error))) s [])
      | Some currentDoc \<Rightarrow>
          (case generateAuthVars a getUserId of
             Inl t \<Rightarrow> settle (Rejected t) s []
           | Inr vars \<Rightarrow>
               (case def currentDoc vars of
                  Inl t \<Rightarrow> settle (Rejected t) s []
                | Inr updatedDoc \<Rightarrow>
                    (let previousDoc = Some currentDoc in
                     case updateLocalState opts (Some updatedDoc) s of
                       (Some t, s1) \<Rightarrow> settle (Rejected t) s1 []
                     | (None, s1) \<Rightarrow>
                         (case doc_toJson updatedDoc of
                            Inl t \<Rightarrow> settle (Rejected t) s1 []
                          | Inr data \<Rightarrow>
                              confirmOrRollback opts (api_updateDoc a documentId data) updatedDoc
                                previousDoc (UpdateDoc documentId data) s1)))))"

definition useTurboDocument_upsertDoc ::
  "documentHookOptions \<Rightarrow> api \<Rightarrow> userIdGetter \<Rightarrow> ident \<Rightarrow> UpsertDocDef \<Rightarrow> documentHook
    \<Rightarrow> (doc, documentHook) settled" where
  "useTurboDocument_upsertDoc opts a getUserId documentId def s =
     (let currentDoc = previousDocRef s in
      case generateAuthVars a getUserId of
        Inl t \<Rightarrow> settle (Rejected t) s []
      | Inr vars \<Rightarrow>
          (case def currentDoc vars of
             Inl t \<Rightarrow> settle (Rejected t) s []
           | Inr upsertedDoc \<Rightarrow>
               (let previousDoc = currentDoc in
                case updateLocalState opts (Some upsertedDoc) s of
                  (Some t, s1) \<Rightarrow> settle (Rejected t) s1 []
                | (None, s1) \<Rightarrow>
                    confirmOrRollback opts (api_createDoc a upsertedDoc documentId True)
                      upsertedDoc previousDoc (CreateDoc upsertedDoc documentId True) s1)))"

definition useTurboDocument_deleteDoc ::
  "documentHookOptions \<Rightarrow> api \<Rightarrow> ident \<Rightarrow> documentHook \<Rightarrow> (unit, documentHook) settled" where
  "useTurboDocument_deleteDoc opts a documentId s =
     (let previousDoc = previousDocRef s in
      case updateLocalState opts None s of
        (Some t, s1) \<Rightarrow> settle (Rejected t) s1 []
      | (None, s1) \<Rightarrow>
          confirmOrRollback opts (api_deleteDoc a documentId) () previousDoc
            (DeleteDoc documentId) s1)"

section \<open>TurboDocumentService\<close>

text \<open>
  The service holds the document in an \<^verbatim>\<open>Informer<T | null>\<close>; its value is the
  mirror. Each remote mutator is one \<^verbatim>\<open>try\<close> block whose handler returns
  \<^verbatim>\<open>fail(error)\<close>: whatever throws inside it (\<^verbatim>\<open>genId\<close>, \<^verbatim>\<open>getUserId\<close>, the
  transform, the two notify callbacks, \<^verbatim>\<open>toJson\<close>) ends as a failure result, with the
  mirror as it was when the throw happened.
\<close>

record serviceCallbacks =
  beforeLocalNotifyUpdate :: "doc option callback"
  afterLocalNotifyUpdate :: "doc option callback"

text \<open>
  \<^verbatim>\<open>turboVars(id?)\<close>: \<^verbatim>\<open>id ?? api.genId\<close>, then \<^verbatim>\<open>getUserId() ?? 'no-auth'\<close>.
\<close>

definition turboVars :: "api \<Rightarrow> userIdGetter \<Rightarrow> ident option \<Rightarrow> thrown + TurboAuthVars" where
  "turboVars a getUserId i =
     (case (case i of None \<Rightarrow> api_genId a | Some x \<Rightarrow> Inr x) of
        Inl t \<Rightarrow> Inl t
      | Inr x \<Rightarrow>
          (case getUserId of
             Inl t \<Rightarrow> Inl t
           | Inr u \<Rightarrow>
               Inr \<lparr>vars_id = x, vars_now = api_now a,
                    vars_userId = (case u of None \<Rightarrow> ''no-auth'' | Some y \<Rightarrow> y)\<rparr>))"

text \<open>
  The private \<^verbatim>\<open>_updateDoc(value, doNotifyListeners)\<close>: the two callbacks run only
  when listeners are to be notified. The result is the thrown value, if any, and the
  value the informer holds.
\<close>

definition private_updateDoc ::
  "serviceCallbacks \<Rightarrow> doc option \<Rightarrow> bool \<Rightarrow> doc option \<Rightarrow> thrown option \<times> doc option" where
  "private_updateDoc cbs v doNotifyListeners docValue =
     (case (if doNotifyListeners then optionalCall (beforeLocalNotifyUpdate cbs) v else None) of
        Some t \<Rightarrow> (Some t, docValue)
      | None \<Rightarrow>
          (case (if doNotifyListeners then optionalCall (afterLocalNotifyUpdate cbs) v else None) of
             Some t \<Rightarrow> (Some t, v)
           | None \<Rightarrow> (None, v)))"


text \<open>The end of the four mutators: \<^verbatim>\<open>fail(...)\<close> or \<^verbatim>\<open>success(...)\<close>, no local write.\<close>

definition respond ::
  "unit TurboResponse \<Rightarrow> 'a \<Rightarrow> remote_call \<Rightarrow> doc option \<Rightarrow> ('a, doc option) settled" where
  "respond response result call v1 =
     (case response of
        Fail f \<Rightarrow> settle (Resolved (refail f)) v1 [call]
      | Success _ \<Rightarrow> settle (Resolved (Success result)) v1 [call])"


definition TurboDocumentService_updateDoc ::
  "serviceCallbacks \<Rightarrow> api \<Rightarrow> userIdGetter \<Rightarrow> UpdateDocDef \<Rightarrow> bool \<Rightarrow> doc option
    \<Rightarrow> (doc, doc option) settled" where
  "TurboDocumentService_updateDoc cbs a getUserId def doNotifyListeners docValue =
     (case docValue of
        None \<Rightarrow>
          settle (Resolved (fail (newError ''Cannot update non-existent document'')
              (Some ''Update Failed'') (Some ''Document does not exist'') None)) docValue []
      | Some current \<Rightarrow>
          (case turboVars a getUserId (Some (doc_id current)) of
             Inl error \<Rightarrow> settle (Resolved (fail error None None None)) docValue []
           | Inr vars \<Rightarrow>
               (case def current vars of
                  Inl error \<Rightarrow> settle (Resolved (fail error None None None)) docValue []
                | Inr pDoc \<Rightarrow>
                    (case private_updateDoc cbs (Some pDoc) doNotifyListeners docValue of
                       (Some error, v1) \<Rightarrow> settle (Resolved (fail error None None None)) v1 []
                     | (None, v1) \<Rightarrow>
                         (case doc_toJson pDoc of
                            Inl error \<Rightarrow> settle (Resolved (fail error None None None)) v1 []
                          | Inr data \<Rightarrow>
                              respond (api_updateDoc a (doc_id current) data) pDoc
                                (UpdateDoc (doc_id current) data) v1)))))"

definition TurboDocumentService_deleteDoc ::
  "serviceCallbacks \<Rightarrow> api \<Rightarrow> bool \<Rightarrow> doc option \<Rightarrow> (unit, doc option) settled" where
  "TurboDocumentService_deleteDoc cbs a doNotifyListeners docValue =
     (case docValue of
        None \<Rightarrow>
          settle (Resolved (fail (newError ''Cannot delete non-existent document'')
              (Some ''Delete Failed'') (Some ''Document does not exist'') None)) docValue []
      | Some current \<Rightarrow>
          (let docId = doc_id current in
           case private_updateDoc cbs None doNotifyListeners docValue of
             (Some error, v1) \<Rightarrow> settle (Resolved (fail error None None None)) v1 []
           | (None, v1) \<Rightarrow> respond (api_deleteDoc a docId) () (DeleteDoc docId) v1))"


section \<open>Subscriptions, timers and callbacks\<close>

text \<open>
  A subscription handle (the \<^verbatim>\<open>Unsubscribe\<close> function a listener registration
  returns) and a timer are named by numbers. What a supervisor does to the outside is
  kept as a trace, oldest first: handles installed and released, callbacks invoked.
\<close>

type_synonym handle = nat
type_synonym timer = nat
type_synonym user = string

datatype effect =
    Subscribed handle
  | Unsubscribed handle
  | AuthSubscribed handle
  | AuthUnsubscribed handle
  | OnAuth user
  | OnData "string option" "user option"
  | OnError TurboFirestoreException
  | OnDone int int
  | Unhandled thrown


fun isOnDone :: "effect \<Rightarrow> bool" where
  "isOnDone (OnDone _ _) = True"
| "isOnDone _ = False"

section \<open>TurboDocumentService.stream\<close>

record documentStream =
  ds_unsubscribe :: "handle option"
  ds_trace :: "effect list"

definition stopStream :: "documentStream \<Rightarrow> documentStream" where
  "stopStream s =
     (case ds_unsubscribe s of
        None \<Rightarrow> s\<lparr>ds_unsubscribe := None\<rparr>
      | Some h \<Rightarrow> s\<lparr>ds_unsubscribe := None, ds_trace := ds_trace s @ [Unsubscribed h]\<rparr>)"

text \<open>
  \<^verbatim>\<open>stream(documentId)\<close>; \<open>res\<close> is what
  \<^verbatim>\<open>api.streamDocByIdWithConverter\<close> does in this call: it throws (building the
  document reference fails, as for an empty id) or it returns a handle. The old handle is
  released before the call; when the call throws, \<^verbatim>\<open>stream\<close> throws with no handle
  held. The result is the thrown value, if any, and the state.
\<close>

definition stream ::
  "ident \<Rightarrow> thrown + handle \<Rightarrow> documentStream \<Rightarrow> thrown option \<times> documentStream" where
  "stream documentId res s =
     (let s1 = stopStream s in
      case res of
        Inl t \<Rightarrow> (Some t, s1)
      | Inr h \<Rightarrow> (None, s1\<lparr>ds_unsubscribe := Some h, ds_trace := ds_trace s1 @ [Subscribed h]\<rparr>))"

section \<open>useAuthSync\<close>

text \<open>
  The options of the hook. \<open>onAuth\<close> is absent or a callback that returns
  (\<open>None\<close>) or throws; \<open>onError\<close> and \<open>onDone\<close> are present or not.
\<close>

record authSyncOptions =
  maxRetries :: int
  retryDelayMs :: int
  onAuth :: "(user \<Rightarrow> thrown option) option"
  has_onError :: bool
  has_onDone :: bool

text \<open>
  The four pieces of React state, the four refs, and the timeouts pending in the runtime.
\<close>

record authSync =
  isReady :: bool
  cachedUserId :: "string option"
  isRetrying :: bool
  retryCount :: int
  streamUnsubscribeRef :: "handle option"
  retryTimeoutRef :: "timer option"
  currentUserRef :: "user option"
  isMountedRef :: bool
  timers :: "timer list"
  nextTimer :: timer
  trace :: "effect list"

definition useAuthSync_init :: authSync where
  "useAuthSync_init =
     \<lparr>isReady = False, cachedUserId = None, isRetrying = False, retryCount = 0,
      streamUnsubscribeRef = None, retryTimeoutRef = None, currentUserRef = None,
      isMountedRef = True, timers = [], nextTimer = 0, trace = []\<rparr>"

definition cleanupStream :: "authSync \<Rightarrow> authSync" where
  "cleanupStream s =
     (let s1 = (case streamUnsubscribeRef s of
                  Some h \<Rightarrow> s\<lparr>streamUnsubscribeRef := None, trace := trace s @ [Unsubscribed h]\<rparr>
                | None \<Rightarrow> s) in
      case retryTimeoutRef s1 of
        Some t \<Rightarrow> s1\<lparr>retryTimeoutRef := None, timers := removeAll t (timers s1)\<rparr>
      | None \<Rightarrow> s1)"

definition handleStreamError :: "authSyncOptions \<Rightarrow> TurboFirestoreException \<Rightarrow> authSync \<Rightarrow> authSync" where
  "handleStreamError opts error s =
     (if \<not> isMountedRef s then s
      else
        (let s1 = (if has_onError opts then s\<lparr>trace := trace s @ [OnError error]\<rparr> else s);
             newCount = retryCount s1 + 1 in
         if newCount \<ge> maxRetries opts then
           (let s2 = s1\<lparr>isRetrying := False\<rparr>;
                s3 = (if has_onDone opts
                      then s2\<lparr>trace := trace s2 @ [OnDone newCount (maxRetries opts)]\<rparr> else s2) in
            s3\<lparr>retryCount := newCount\<rparr>)
         else
           s1\<lparr>isRetrying := True, retryTimeoutRef := Some (nextTimer s1),
              timers := timers s1 @ [nextTimer s1], nextTimer := Suc (nextTimer s1),
              retryCount := newCount\<rparr>))"

text \<open>
  What the \<^verbatim>\<open>catch\<close> of \<^verbatim>\<open>setupStream\<close> hands on: the exception itself, or a
  new one with the code \<^verbatim>\<open>unknown\<close>, the message and the stack of the error, and the
  message \<^verbatim>\<open>Unknown stream setup error\<close> for a value that is no error.
\<close>

definition firestoreError :: "thrown \<Rightarrow> TurboFirestoreException" where
  "firestoreError error =
     (case error of
        TurboError e \<Rightarrow> e
      | Error m st \<Rightarrow> new_exception BaseException m ''unknown'' None None st
      | NonError v \<Rightarrow>
          new_exception BaseException ''Unknown stream setup error'' ''unknown'' None None None)"

text \<open>
  \<^verbatim>\<open>setupStream(user)\<close>; \<open>res\<close> is what \<^verbatim>\<open>stream(user)\<close> does in this call: it
  throws, or it returns a handle. The call is taken as one step: nothing else runs while
  it waits for \<^verbatim>\<open>onAuth\<close>.
\<close>

definition setupStream :: "authSyncOptions \<Rightarrow> thrown + handle \<Rightarrow> user \<Rightarrow> authSync \<Rightarrow> authSync" where
  "setupStream opts res usr s =
     (if \<not> isMountedRef s then s
      else
        (let s1 = cleanupStream s;
             authed = (case onAuth opts of
                         None \<Rightarrow> Inr s1
                       | Some f \<Rightarrow>
                           (case f usr of
                              Some t \<Rightarrow> Inl (t, s1\<lparr>trace := trace s1 @ [OnAuth usr]\<rparr>)
                            | None \<Rightarrow> Inr (s1\<lparr>trace := trace s1 @ [OnAuth usr]\<rparr>))) in
         case authed of
           Inl (t, s2) \<Rightarrow> handleStreamError opts (firestoreError t) s2
         | Inr s2 \<Rightarrow>
             (case res of
                Inl t \<Rightarrow> handleStreamError opts (firestoreError t) s2
              | Inr unsubscribe \<Rightarrow>
                  s2\<lparr>streamUnsubscribeRef := Some unsubscribe,
                     trace := trace s2 @ [Subscribed unsubscribe],
                     isReady := True, retryCount := 0, isRetrying := False\<rparr>)))"

text \<open>\<^verbatim>\<open>handleSignOut\<close>; what \<^verbatim>\<open>onData(null, null)\<close> throws is caught and logged.\<close>

definition handleSignOut :: "authSyncOptions \<Rightarrow> authSync \<Rightarrow> authSync" where
  "handleSignOut opts s =
     (if \<not> isMountedRef s then s
      else
        (let s1 = cleanupStream s;
             s2 = s1\<lparr>cachedUserId := None, isReady := False, retryCount := 0,
                    isRetrying := False, currentUserRef := None\<rparr>;
             s3 = s2\<lparr>trace := trace s2 @ [OnData None None]\<rparr> in
         if has_onDone opts then s3\<lparr>trace := trace s3 @ [OnDone 0 (maxRetries opts)]\<rparr> else s3))"

text \<open>The callback given to \<^verbatim>\<open>onAuthStateChanged\<close>.\<close>

definition authStateChanged ::
  "authSyncOptions \<Rightarrow> thrown + handle \<Rightarrow> user option \<Rightarrow> authSync \<Rightarrow> authSync" where
  "authStateChanged opts res usr s =
     (if \<not> isMountedRef s then s
      else
        (let s1 = s\<lparr>currentUserRef := usr\<rparr> in
         case usr of
           Some u \<Rightarrow> setupStream opts res u (s1\<lparr>cachedUserId := Some u\<rparr>)
         | None \<Rightarrow> handleSignOut opts s1))"


definition resetAndReinitialize :: "authSyncOptions \<Rightarrow> thrown + handle \<Rightarrow> authSync \<Rightarrow> authSync" where
  "resetAndReinitialize opts res s =
     (if \<not> isMountedRef s then s
      else
        (let s1 = (cleanupStream s)\<lparr>retryCount := 0, isRetrying := False\<rparr> in
         case currentUserRef s1 of
           Some u \<Rightarrow> setupStream opts res u s1
         | None \<Rightarrow> s1))"





section \<open>FirebaseAuthService\<close>

record firebaseAuthService =
  fas_cachedUserId :: "string option"
  subscription :: "handle option"
  userSubscription :: "handle option"
  retryTimer :: "timer option"
  nrOfRetry :: nat
  fas_timers :: "timer list"
  fas_nextTimer :: timer
  fas_trace :: "effect list"

definition maxNrOfRetry :: nat where
  "maxNrOfRetry = 20"

definition FirebaseAuthService_init :: firebaseAuthService where
  "FirebaseAuthService_init =
     \<lparr>fas_cachedUserId = None, subscription = None, userSubscription = None,
      retryTimer = None, nrOfRetry = 0, fas_timers = [], fas_nextTimer = 0, fas_trace = []\<rparr>"

definition resetStream :: "firebaseAuthService \<Rightarrow> firebaseAuthService" where
  "resetStream s =
     (let s1 = (case userSubscription s of
                  Some h \<Rightarrow> s\<lparr>fas_trace := fas_trace s @ [AuthUnsubscribed h]\<rparr>
                | None \<Rightarrow> s);
          s2 = s1\<lparr>userSubscription := None\<rparr>;
          s3 = (case subscription s2 of
                  Some h \<Rightarrow> s2\<lparr>fas_trace := fas_trace s2 @ [Unsubscribed h]\<rparr>
                | None \<Rightarrow> s2) in
      s3\<lparr>subscription := None\<rparr>)"

definition resetRetryTimer :: "firebaseAuthService \<Rightarrow> firebaseAuthService" where
  "resetRetryTimer s =
     (case retryTimer s of
        Some t \<Rightarrow> s\<lparr>fas_timers := removeAll t (fas_timers s), retryTimer := None\<rparr>
      | None \<Rightarrow> s)"

text \<open>
  \<^verbatim>\<open>_tryRetry\<close>: it sets the timeout and leaves the count alone; the count grows
  when the timeout fires.
\<close>

definition tryRetry :: "firebaseAuthService \<Rightarrow> firebaseAuthService" where
  "tryRetry s =
     (if nrOfRetry s < maxNrOfRetry then
        (let s1 = (if retryTimer s \<noteq> None then resetRetryTimer s else s) in
         s1\<lparr>retryTimer := Some (fas_nextTimer s1),
            fas_timers := fas_timers s1 @ [fas_nextTimer s1],
            fas_nextTimer := Suc (fas_nextTimer s1)\<rparr>)
      else resetStream s)"

text \<open>
  The exception handed to \<^verbatim>\<open>onError\<close>: the error itself, or
  \<^verbatim>\<open>fromFirestoreError(error)\<close>, which copies message, code and stack. A plain error
  has no code and a value that is no error has no message either; the missing fields are
  read here as the empty string.
\<close>

definition toException :: "thrown \<Rightarrow> TurboFirestoreException" where
  "toException error =
     (case error of
        TurboError e \<Rightarrow> e
      | Error m st \<Rightarrow> fromFirestoreError \<lparr>fe_message = m, fe_code = [], fe_stack = st\<rparr> None None
      | NonError v \<Rightarrow>
          fromFirestoreError \<lparr>fe_message = [], fe_code = [], fe_stack = None\<rparr> None None)"

text \<open>The error callback given to \<^verbatim>\<open>stream\<close>.\<close>

definition streamError :: "thrown \<Rightarrow> firebaseAuthService \<Rightarrow> firebaseAuthService" where
  "streamError error s =
     tryRetry (s\<lparr>fas_trace := fas_trace s @ [OnError (toException error)]\<rparr>)"

text \<open>
  \<^verbatim>\<open>tryInitialiseStream\<close>; \<open>res\<close> is what \<^verbatim>\<open>onAuthStateChanged\<close> does if it is
  called: it throws or returns the handle of the authentication listener.
  \<^verbatim>\<open>??=\<close> calls it only when no listener is held.
\<close>

definition tryInitialiseStream :: "thrown + handle \<Rightarrow> firebaseAuthService \<Rightarrow> firebaseAuthService" where
  "tryInitialiseStream res s =
     (case userSubscription s of
        Some _ \<Rightarrow> s
      | None \<Rightarrow>
          (case res of
             Inr h \<Rightarrow> s\<lparr>userSubscription := Some h, fas_trace := fas_trace s @ [AuthSubscribed h]\<rparr>
           | Inl error \<Rightarrow>
               tryRetry (s\<lparr>fas_trace := fas_trace s @ [OnError (toException error)]\<rparr>)))"

text \<open>
  The callback given to \<^verbatim>\<open>onAuthStateChanged\<close>; \<open>res\<close> is what \<^verbatim>\<open>stream\<close>
  does if it is called. With a user, \<^verbatim>\<open>this._subscription ??= await this.stream(...)\<close>
  calls \<^verbatim>\<open>stream\<close> only when no subscription is held; a throw of \<^verbatim>\<open>stream\<close> is
  caught nowhere in the callback.
\<close>

definition authCallback :: "thrown + handle \<Rightarrow> user option \<Rightarrow> firebaseAuthService \<Rightarrow> firebaseAuthService" where
  "authCallback res usr s =
     (case usr of
        Some userId \<Rightarrow>
          (let s1 = s\<lparr>fas_cachedUserId := Some userId, fas_trace := fas_trace s @ [OnAuth userId]\<rparr> in
           case subscription s1 of
             Some _ \<Rightarrow> s1
           | None \<Rightarrow>
               (case res of
                  Inr h \<Rightarrow> s1\<lparr>subscription := Some h, fas_trace := fas_trace s1 @ [Subscribed h]\<rparr>
                | Inl t \<Rightarrow> s1\<lparr>fas_trace := fas_trace s1 @ [Unhandled t]\<rparr>))
      | None \<Rightarrow>
          (let s1 = s\<lparr>fas_cachedUserId := None\<rparr>;
               s2 = (case subscription s1 of
                       Some h \<Rightarrow> s1\<lparr>fas_trace := fas_trace s1 @ [Unsubscribed h]\<rparr>
                     | None \<Rightarrow> s1);
               s3 = s2\<lparr>subscription := None\<rparr> in
           s3\<lparr>fas_trace := fas_trace s3 @ [OnData None None]\<rparr>))"

text \<open>
  The retry timeout \<open>t\<close> fires, if it is still pending: the count grows, both listeners
  are released, the stream is initialised again and the timer field is cleared.
\<close>

definition retryTimerFired :: "thrown + handle \<Rightarrow> timer \<Rightarrow> firebaseAuthService \<Rightarrow> firebaseAuthService" where
  "retryTimerFired res t s =
     (if t \<notin> set (fas_timers s) then s
      else
        (let s1 = s\<lparr>fas_timers := removeAll t (fas_timers s)\<rparr>;
             s2 = s1\<lparr>nrOfRetry := Suc (nrOfRetry s1)\<rparr>;
             s3 = resetStream s2;
             s4 = tryInitialiseStream res s3 in
         s4\<lparr>retryTimer := None\<rparr>))"

definition dispose :: "firebaseAuthService \<Rightarrow> firebaseAuthService" where
  "dispose s = (resetRetryTimer (resetStream s))\<lparr>nrOfRetry := 0\<rparr>"

text \<open>
  One retry that succeeds in subscribing again: the pending timeout fires, the
  authentication listener is registered with handle \<open>ha\<close>, it reports the user and
  \<^verbatim>\<open>stream\<close> returns the handle \<open>hs\<close>.
\<close>

definition retryResubscribes :: "handle \<Rightarrow> handle \<Rightarrow> user \<Rightarrow> firebaseAuthService \<Rightarrow> firebaseAuthService" where
  "retryResubscribes ha hs u s =
     (case retryTimer s of
        Some t \<Rightarrow> authCallback (Inr hs) (Some u) (retryTimerFired (Inr ha) t s)
      | None \<Rightarrow> s)"

text \<open>
  \<open>n\<close> consecutive stream errors, each but the last followed by its retry; no
  \<^verbatim>\<open>dispose\<close> in between.
\<close>

fun streamErrors :: "nat \<Rightarrow> handle \<Rightarrow> handle \<Rightarrow> user \<Rightarrow> thrown \<Rightarrow> firebaseAuthService \<Rightarrow> firebaseAuthService" where
  "streamErrors 0 ha hs u e s = s"
| "streamErrors (Suc 0) ha hs u e s = streamError e s"
| "streamErrors (Suc (Suc n)) ha hs u e s =
     streamError e (retryResubscribes ha hs u (streamErrors (Suc n) ha hs u e s))"

section \<open>Concrete inputs\<close>

text \<open>
  Two to-do documents in the manner of the specification's example scenarios, a store
  that is unavailable (every point operation fails, staging succeeds, the commit throws)
  and a store that works; a caller that is signed in as \<^verbatim>\<open>u1\<close>; hooks and services
  without callbacks, and a hook whose \<^verbatim>\<open>beforeLocalUpdate\<close> insists on a document.
\<close>

definition doc_t1 :: doc where
  "doc_t1 = \<lparr>doc_id = ''t1'', doc_fields = [(''title'', ''Buy milk''), (''completed'', ''false'')],
      doc_toJson = Inr [(''title'', ''Buy milk''), (''completed'', ''false'')]\<rparr>"

definition doc_t1_done :: doc where
  "doc_t1_done = \<lparr>doc_id = ''t1'', doc_fields = [(''title'', ''Buy milk''), (''completed'', ''true'')],
      doc_toJson = Inr [(''title'', ''Buy milk''), (''completed'', ''true'')]\<rparr>"

definition doc_t2 :: doc where
  "doc_t2 = \<lparr>doc_id = ''t2'', doc_fields = [(''title'', ''Call home''), (''completed'', ''false'')],
      doc_toJson = Inr [(''title'', ''Call home''), (''completed'', ''false'')]\<rparr>"

definition unavailable :: failure where
  "unavailable =
     \<lparr>fail_error = TurboError (new_exception UnavailableException ''offline'' ''unavailable''
        (Some ''todos'') None None),
      fail_title = None, fail_message = Some ''offline'', fail_stackTrace = None\<rparr>"

definition api_down :: api where
  "api_down =
     \<lparr>api_genId = Inr ''g1'', api_now = 0,
      api_createDoc = (\<lambda>d i mg. Fail unavailable),
      api_updateDoc = (\<lambda>i j. Fail unavailable),
      api_deleteDoc = (\<lambda>i. Fail unavailable),
      api_writeBatch = None,
      api_createDocInBatch = (\<lambda>d i. Success ()),
      api_updateDocInBatch = (\<lambda>i j. Success ()),
      api_deleteDocInBatch = (\<lambda>i. Success ()),
      batch_commit = (\<lambda>cs. Some (Error ''offline'' None))\<rparr>"

definition api_up :: api where
  "api_up =
     \<lparr>api_genId = Inr ''g1'', api_now = 0,
      api_createDoc = (\<lambda>d i mg. Success ()),
      api_updateDoc = (\<lambda>i j. Success ()),
      api_deleteDoc = (\<lambda>i. Success ()),
      api_writeBatch = None,
      api_createDocInBatch = (\<lambda>d i. Success ()),
      api_updateDocInBatch = (\<lambda>i j. Success ()),
      api_deleteDocInBatch = (\<lambda>i. Success ()),
      batch_commit = (\<lambda>cs. None)\<rparr>"

definition signed_in :: userIdGetter where
  "signed_in = Inr (Some ''u1'')"

definition no_callbacks :: documentHookOptions where
  "no_callbacks = \<lparr>beforeLocalUpdate = None, afterLocalUpdate = None, hook_onError = None\<rparr>"

definition requires_document :: documentHookOptions where
  "requires_document =
     \<lparr>beforeLocalUpdate =
        Some (\<lambda>d. case d of None \<Rightarrow> Some (Error ''document required'' None) | Some _ \<Rightarrow> None),
      afterLocalUpdate = None, hook_onError = None\<rparr>"


text \<open>
  A service that streams: the authentication listener is registered (handle 1), it has
  reported the user and \<^verbatim>\<open>stream\<close> has returned handle 2.
\<close>

definition fas_streaming :: firebaseAuthService where
  "fas_streaming =
     authCallback (Inr 2) (Some ''u1'') (tryInitialiseStream (Inr 1) FirebaseAuthService_init)"


definition sync_options :: authSyncOptions where
  "sync_options =
     \<lparr>maxRetries = 3, retryDelayMs = 1000, onAuth = None, has_onError = True, has_onDone = True\<rparr>"

section \<open>A failing remote call, mutation by mutation\<close>

text \<open>
  What each optimistic mutation leaves behind when everything it calls of the caller's
  returns and the remote call fails. The hooks put the previous value back; the service
  keeps the new one.
\<close>

lemma refail_Fail: "refail f = Fail f"
  by (simp add: refail_def fail_def)



lemma tryFindById_Some: "tryFindById m i = Some d \<Longrightarrow> m i = Some d"
  by (simp add: tryFindById_def split: if_splits)

















section \<open>The batch loops\<close>

lemma deleteAll_apply: "deleteAll ids m x = (if x \<in> set ids then None else m x)"
  unfolding deleteAll_def by (induction ids arbitrary: m) auto

lemma setAll_other: "x \<notin> doc_id ` set docs \<Longrightarrow> setAll docs m x = m x"
  unfolding setAll_def by (induction docs arbitrary: m) auto

lemma restoreAll_apply:
  "\<forall>(i, d) \<in> set prev. m0 i = Some d \<Longrightarrow>
   restoreAll prev m x = (if x \<in> fst ` set prev then m0 x else m x)"
  unfolding restoreAll_def
proof (induction prev arbitrary: m)
  case Nil
  then show ?case by simp
next
  case (Cons p prev)
  then show ?case by (cases p) (auto simp: image_iff)
qed

lemma failedResult_cases:
  "(failedResult rs = None \<and> (\<forall>r \<in> set rs. isSuccess r))
   \<or> (\<exists>f. failedResult rs = Some (Fail f) \<and> Fail f \<in> set rs)"
  unfolding failedResult_def
proof (induction rs)
  case Nil
  then show ?case by simp
next
  case (Cons r rs)
  then show ?case by (cases r) auto
qed

lemma set_AList_update_subset:
  "set (AList.update k v al) \<subseteq> insert (k, v) (set al)"
  by (induction al) auto

lemma collect_updates_Inr:
  "collect_updates m vars us prev0 upd0 = Inr (prev, upd) \<Longrightarrow>
   \<forall>(i, d) \<in> set prev0. m i = Some d \<Longrightarrow>
   (\<forall>(i, d) \<in> set prev. m i = Some d)
   \<and> fst ` set prev = fst ` set prev0 \<union> fst ` set us"
proof (induction m vars us prev0 upd0 rule: collect_updates.induct)
  case (1 m vars previousDocs updatedDocs)
  then show ?case by simp
next
  case (2 m vars i def rest previousDocs updatedDocs)
  from "2.prems"(1) obtain cur d where
    cur: "tryFindById m i = Some cur" and d: "def cur vars = Inr d"
    and rec: "collect_updates m vars rest (AList.update i cur previousDocs) (updatedDocs @ [d])
                = Inr (prev, upd)"
    by (auto split: option.splits sum.splits)
  have inv: "\<forall>(k, v) \<in> set (AList.update i cur previousDocs). m k = Some v"
    using "2.prems"(2) tryFindById_Some [OF cur] set_AList_update_subset [of i cur previousDocs]
    by auto
  from "2.IH" [OF cur d rec inv] show ?case
    by (auto simp: dom_update)
qed

lemma collect_deletes_Inr:
  "collect_deletes m ids prev0 = Inr prev \<Longrightarrow>
   \<forall>(i, d) \<in> set prev0. m i = Some d \<Longrightarrow>
   (\<forall>(i, d) \<in> set prev. m i = Some d)
   \<and> fst ` set prev = fst ` set prev0 \<union> set ids"
proof (induction m ids prev0 rule: collect_deletes.induct)
  case (1 m previousDocs)
  then show ?case by simp
next
  case (2 m i rest previousDocs)
  from "2.prems"(1) obtain cur where
    cur: "tryFindById m i = Some cur"
    and rec: "collect_deletes m rest (AList.update i cur previousDocs) = Inr prev"
    by (auto split: option.splits)
  have inv: "\<forall>(k, v) \<in> set (AList.update i cur previousDocs). m k = Some v"
    using "2.prems"(2) tryFindById_Some [OF cur] set_AList_update_subset [of i cur previousDocs]
    by auto
  from "2.IH" [OF cur rec inv] show ?case
    by (auto simp: dom_update)
qed

lemma isFail_iff: "isFail r \<longleftrightarrow> \<not> isSuccess r"
  by (cases r) simp_all

lemma rollback_created:
  "\<forall>d \<in> set newDocs. m (doc_id d) = None \<Longrightarrow>
   deleteAll (map doc_id newDocs) (setAll newDocs m) = m"
  by (rule ext) (auto simp: deleteAll_apply setAll_other)

lemma rollback_updated:
  assumes "\<forall>(i, d) \<in> set prev. m i = Some d" "doc_id ` set upd \<subseteq> fst ` set prev"
  shows "restoreAll prev (setAll upd m) = m"
proof (rule ext)
  fix x
  show "restoreAll prev (setAll upd m) x = m x"
    using assms(2) by (auto simp: restoreAll_apply [OF assms(1)] intro!: setAll_other)
qed

lemma rollback_deleted:
  assumes "\<forall>(i, d) \<in> set prev. m i = Some d" "set ids \<subseteq> fst ` set prev"
  shows "restoreAll prev (deleteAll ids m) = m"
proof (rule ext)
  fix x
  show "restoreAll prev (deleteAll ids m) x = m x"
    using assms(2) by (auto simp: restoreAll_apply [OF assms(1)] deleteAll_apply)
qed


lemma createDocs_fail:
  assumes vars: "createAuthVars a g = Inr vars"
    and docs: "map_throwing (\<lambda>def. def vars) defs = Inr newDocs"
    and batch: "api_writeBatch a = None"
    and fresh: "\<forall>d \<in> set newDocs. m (doc_id d) = None"
    and failed: "(\<exists>d \<in> set newDocs. isFail (api_createDocInBatch a d (doc_id d)))
       \<or> batch_commit a (map (\<lambda>d. BatchSet d (doc_id d)) newDocs) \<noteq> None"
  shows "mirror (useTurboCollection_createDocs a g defs m) = m
    \<and> (\<exists>f. outcome (useTurboCollection_createDocs a g defs m) = Resolved (Fail f))"
proof -
  let ?rs = "map (\<lambda>d. api_createDocInBatch a d (doc_id d)) newDocs"
  from failedResult_cases [of ?rs]
  consider (commit) "failedResult ?rs = None" "\<forall>r \<in> set ?rs. isSuccess r"
    | (staging) f where "failedResult ?rs = Some (Fail f)"
    by auto
  then show ?thesis
  proof cases
    case commit
    from commit(2) have "\<not> (\<exists>d \<in> set newDocs. isFail (api_createDocInBatch a d (doc_id d)))"
      by (auto simp: isFail_iff)
    with failed obtain e where
      "batch_commit a (map (\<lambda>d. BatchSet d (doc_id d)) newDocs) = Some e" by auto
    with vars docs batch commit(1) show ?thesis
      by (simp add: useTurboCollection_createDocs_def settle_def fail_def Let_def
          rollback_created [OF fresh])
  next
    case staging
    with vars docs batch show ?thesis
      by (simp add: useTurboCollection_createDocs_def settle_def refail_Fail Let_def
          rollback_created [OF fresh])
  qed
qed

lemma updateDocs_fail:
  assumes vars: "createAuthVars a g = Inr vars"
    and loop: "collect_updates docsById vars updates [] [] = Inr (prev, upd)"
    and agree: "\<forall>i \<in> fst ` set updates. state i = docsById i"
    and ids: "doc_id ` set upd \<subseteq> fst ` set updates"
    and batch: "api_writeBatch a = None"
    and stage: "map_throwing (stage_update a) upd = Inr results"
    and failed: "(\<exists>r \<in> set results. isFail (fst r)) \<or> batch_commit a (map snd results) \<noteq> None"
  shows "mirror (useTurboCollection_updateDocs a g updates docsById state) = state
    \<and> (\<exists>f. outcome (useTurboCollection_updateDocs a g updates docsById state)
          = Resolved (Fail f))"
proof -
  from collect_updates_Inr [OF loop]
  have prev0: "\<forall>(i, d) \<in> set prev. docsById i = Some d"
    and keys: "fst ` set prev = fst ` set updates"
    by simp_all
  have prev: "\<forall>(i, d) \<in> set prev. state i = Some d"
  proof (clarify)
    fix i d assume p: "(i, d) \<in> set prev"
    then have "i \<in> fst ` set updates" using keys by force
    with agree have "state i = docsById i" by blast
    with prev0 p show "state i = Some d" by auto
  qed
  have restored: "restoreAll prev (setAll upd state) = state"
    using rollback_updated [OF prev] ids keys by simp
  let ?rs = "map fst results"
  from failedResult_cases [of ?rs]
  consider (commit) "failedResult ?rs = None" "\<forall>r \<in> set ?rs. isSuccess r"
    | (staging) f where "failedResult ?rs = Some (Fail f)"
    by auto
  then show ?thesis
  proof cases
    case commit
    from commit(2) have "\<not> (\<exists>r \<in> set results. isFail (fst r))"
      by (auto simp: isFail_iff)
    with failed obtain e where "batch_commit a (map snd results) = Some e" by auto
    with vars loop batch stage commit(1) show ?thesis
      by (simp add: useTurboCollection_updateDocs_def settle_def fail_def Let_def restored)
  next
    case staging
    with vars loop batch stage show ?thesis
      by (simp add: useTurboCollection_updateDocs_def settle_def refail_Fail Let_def restored)
  qed
qed

lemma deleteDocs_fail:
  assumes loop: "collect_deletes docsById ids [] = Inr prev"
    and agree: "\<forall>i \<in> set ids. state i = docsById i"
    and batch: "api_writeBatch a = None"
    and failed: "(\<exists>i \<in> set ids. isFail (api_deleteDocInBatch a i))
       \<or> batch_commit a (map BatchDelete ids) \<noteq> None"
  shows "mirror (useTurboCollection_deleteDocs a ids docsById state) = state
    \<and> (\<exists>f. outcome (useTurboCollection_deleteDocs a ids docsById state) = Resolved (Fail f))"
proof -
  from collect_deletes_Inr [OF loop]
  have prev0: "\<forall>(i, d) \<in> set prev. docsById i = Some d" and keys: "fst ` set prev = set ids"
    by simp_all
  have prev: "\<forall>(i, d) \<in> set prev. state i = Some d"
  proof (clarify)
    fix i d assume p: "(i, d) \<in> set prev"
    then have "i \<in> set ids" using keys by force
    with agree have "state i = docsById i" by blast
    with prev0 p show "state i = Some d" by auto
  qed
  have restored: "restoreAll prev (deleteAll ids state) = state"
    using rollback_deleted [OF prev] keys by simp
  let ?rs = "map (api_deleteDocInBatch a) ids"
  from failedResult_cases [of ?rs]
  consider (commit) "failedResult ?rs = None" "\<forall>r \<in> set ?rs. isSuccess r"
    | (staging) f where "failedResult ?rs = Some (Fail f)"
    by auto
  then show ?thesis
  proof cases
    case commit
    from commit(2) have "\<not> (\<exists>i \<in> set ids. isFail (api_deleteDocInBatch a i))"
      by (auto simp: isFail_iff)
    with failed obtain e where "batch_commit a (map BatchDelete ids) = Some e" by auto
    with loop batch commit(1) show ?thesis
      by (simp add: useTurboCollection_deleteDocs_def settle_def fail_def Let_def restored)
  next
    case staging
    with loop batch show ?thesis
      by (simp add: useTurboCollection_deleteDocs_def settle_def refail_Fail Let_def restored)
  qed
qed

section \<open>How the mutations settle\<close>













lemma hook_updateDoc_missing:
  assumes "previousDocRef s = None"
    "optionalCall (hook_onError opts)
       (new_exception BaseException ''Cannot update: document does not exist'' ''not-found''
          (Some documentId) None None) = None"
  shows "remote_calls (useTurboDocument_updateDoc opts a g documentId udef s) = []
    \<and> mirror (useTurboDocument_updateDoc opts a g documentId udef s) = s
    \<and> (\<exists>f. outcome (useTurboDocument_updateDoc opts a g documentId udef s) = Resolved (Fail f))"
  using assms
  by (simp add: useTurboDocument_updateDoc_def settle_def fail_def Let_def)



lemma col_missing:
  assumes "tryFindById docsById i = None"
  shows "remote_calls (useTurboCollection_updateDoc a g i udef docsById state) = []
    \<and> mirror (useTurboCollection_updateDoc a g i udef docsById state) = state
    \<and> (\<exists>f. outcome (useTurboCollection_updateDoc a g i udef docsById state) = Resolved (Fail f))
    \<and> remote_calls (useTurboCollection_deleteDoc a i docsById state) = []
    \<and> mirror (useTurboCollection_deleteDoc a i docsById state) = state
    \<and> (\<exists>f. outcome (useTurboCollection_deleteDoc a i docsById state) = Resolved (Fail f))"
  using assms
  by (simp add: useTurboCollection_updateDoc_def useTurboCollection_deleteDoc_def settle_def
      fail_def)

lemma svc_missing:
  "remote_calls (TurboDocumentService_updateDoc cbs a g udef n None) = []
    \<and> mirror (TurboDocumentService_updateDoc cbs a g udef n None) = None
    \<and> (\<exists>f. outcome (TurboDocumentService_updateDoc cbs a g udef n None) = Resolved (Fail f))
    \<and> remote_calls (TurboDocumentService_deleteDoc cbs a n None) = []
    \<and> mirror (TurboDocumentService_deleteDoc cbs a n None) = None
    \<and> (\<exists>f. outcome (TurboDocumentService_deleteDoc cbs a n None) = Resolved (Fail f))"
  by (simp add: TurboDocumentService_updateDoc_def TurboDocumentService_deleteDoc_def settle_def
      fail_def)

section \<open>The retry supervisor of useAuthSync\<close>

lemma cleanupStream_fields:
  "isMountedRef (cleanupStream s) = isMountedRef s"
  "currentUserRef (cleanupStream s) = currentUserRef s"
  "retryCount (cleanupStream s) = retryCount s"
  "cachedUserId (cleanupStream s) = cachedUserId s"
  "isRetrying (cleanupStream s) = isRetrying s"
  "nextTimer (cleanupStream s) = nextTimer s"
  "streamUnsubscribeRef (cleanupStream s) = None"
  "retryTimeoutRef (cleanupStream s) = None"
  "timers (cleanupStream s) =
     (case retryTimeoutRef s of Some t \<Rightarrow> removeAll t (timers s) | None \<Rightarrow> timers s)"
  "trace (cleanupStream s) =
     trace s @ (case streamUnsubscribeRef s of Some h \<Rightarrow> [Unsubscribed h] | None \<Rightarrow> [])"
  by (simp_all add: cleanupStream_def Let_def split: option.splits)









section \<open>The retry loop of FirebaseAuthService\<close>

lemma fas_streaming_fields:
  "nrOfRetry fas_streaming = 0" "fas_timers fas_streaming = []" "retryTimer fas_streaming = None"
  "subscription fas_streaming = Some 2" "userSubscription fas_streaming = Some 1"
  "fas_trace fas_streaming = [AuthSubscribed 1, OnAuth ''u1'', Subscribed 2]"
  by (simp_all add: fas_streaming_def authCallback_def tryInitialiseStream_def
      FirebaseAuthService_init_def Let_def)

lemma streamError_waits:
  assumes "nrOfRetry s < maxNrOfRetry" "fas_timers s = []" "retryTimer s = None"
  shows "nrOfRetry (streamError e s) = nrOfRetry s
    \<and> retryTimer (streamError e s) = Some (fas_nextTimer s)
    \<and> fas_timers (streamError e s) = [fas_nextTimer s]
    \<and> subscription (streamError e s) = subscription s
    \<and> userSubscription (streamError e s) = userSubscription s
    \<and> filter isOnDone (fas_trace (streamError e s)) = filter isOnDone (fas_trace s)"
  using assms by (simp add: streamError_def tryRetry_def Let_def)


lemma retryResubscribes_props:
  assumes "retryTimer s = Some t" "fas_timers s = [t]"
  shows "nrOfRetry (retryResubscribes ha hs u s) = Suc (nrOfRetry s)
    \<and> retryTimer (retryResubscribes ha hs u s) = None
    \<and> fas_timers (retryResubscribes ha hs u s) = []
    \<and> subscription (retryResubscribes ha hs u s) = Some hs
    \<and> userSubscription (retryResubscribes ha hs u s) = Some ha
    \<and> filter isOnDone (fas_trace (retryResubscribes ha hs u s)) = filter isOnDone (fas_trace s)"
  using assms
  by (simp add: retryResubscribes_def retryTimerFired_def resetStream_def
      tryInitialiseStream_def authCallback_def Let_def split: option.splits)

lemma streamErrors_wait:
  assumes "fas_timers s = []" "retryTimer s = None"
  shows "nrOfRetry s + n < maxNrOfRetry \<Longrightarrow>
    nrOfRetry (streamErrors (Suc n) ha hs u e s) = nrOfRetry s + n
    \<and> (\<exists>t. retryTimer (streamErrors (Suc n) ha hs u e s) = Some t
          \<and> fas_timers (streamErrors (Suc n) ha hs u e s) = [t])
    \<and> filter isOnDone (fas_trace (streamErrors (Suc n) ha hs u e s))
        = filter isOnDone (fas_trace s)"
proof (induction n)
  case 0
  then have "nrOfRetry s < maxNrOfRetry" by simp
  from streamError_waits [OF this assms, of e] show ?case by simp
next
  case (Suc n)
  let ?s = "streamErrors (Suc n) ha hs u e s"
  from Suc obtain t where
    before: "nrOfRetry ?s = nrOfRetry s + n" "retryTimer ?s = Some t" "fas_timers ?s = [t]"
      "filter isOnDone (fas_trace ?s) = filter isOnDone (fas_trace s)"
    by auto
  let ?r = "retryResubscribes ha hs u ?s"
  from retryResubscribes_props [OF before(2,3), of ha hs u] before(1,4)
  have retried: "nrOfRetry ?r = Suc (nrOfRetry s + n)" "retryTimer ?r = None" "fas_timers ?r = []"
    "filter isOnDone (fas_trace ?r) = filter isOnDone (fas_trace s)"
    by simp_all
  from retried(1) Suc.prems have "nrOfRetry ?r < maxNrOfRetry" by simp
  from streamError_waits [OF this retried(3,2), of e] retried(1,4) show ?case
    by simp
qed



section \<open>Sign-out and repeated starts\<close>


lemma handleSignOut_props:
  assumes "isMountedRef s"
  shows "cachedUserId (handleSignOut opts s) = None
    \<and> retryCount (handleSignOut opts s) = 0
    \<and> \<not> isRetrying (handleSignOut opts s)
    \<and> currentUserRef (handleSignOut opts s) = None
    \<and> retryTimeoutRef (handleSignOut opts s) = None
    \<and> timers (handleSignOut opts s) =
        (case retryTimeoutRef s of Some t \<Rightarrow> removeAll t (timers s) | None \<Rightarrow> timers s)
    \<and> streamUnsubscribeRef (handleSignOut opts s) = None
    \<and> trace (handleSignOut opts s) =
        trace s @ (case streamUnsubscribeRef s of Some h \<Rightarrow> [Unsubscribed h] | None \<Rightarrow> [])
          @ [OnData None None]
          @ (if has_onDone opts then [OnDone 0 (maxRetries opts)] else [])"
  using assms by (simp add: handleSignOut_def Let_def cleanupStream_fields)

lemma authCallback_signOut:
  "fas_cachedUserId (authCallback res None f) = None
   \<and> subscription (authCallback res None f) = None
   \<and> fas_trace (authCallback res None f) =
       fas_trace f @ (case subscription f of Some h \<Rightarrow> [Unsubscribed h] | None \<Rightarrow> [])
         @ [OnData None None]
   \<and> nrOfRetry (authCallback res None f) = nrOfRetry f
   \<and> retryTimer (authCallback res None f) = retryTimer f
   \<and> fas_timers (authCallback res None f) = fas_timers f"
  by (simp add: authCallback_def Let_def split: option.splits)





section \<open>Exception mapping\<close>

text \<open>
  C9. For every FirestoreError, \<^verbatim>\<open>fromFirestoreError\<close> returns an exception whose
  message and code are the input's, whose path and query are the ones passed in and whose
  stack trace is the input's stack; the subclass depends on the code only: each of the six
  listed codes has its own subclass and every other code gives the generic subclass.
\<close>

theorem fromFirestoreError_total:
  "exc_message (fromFirestoreError e p q) = fe_message e
   \<and> exc_code (fromFirestoreError e p q) = fe_code e
   \<and> exc_path (fromFirestoreError e p q) = p
   \<and> exc_query (fromFirestoreError e p q) = q
   \<and> exc_stackTrace (fromFirestoreError e p q) = fe_stack e
   \<and> (fe_code e = ''permission-denied'' \<longrightarrow>
        exc_class (fromFirestoreError e p q) = PermissionDeniedException)
   \<and> (fe_code e = ''unavailable'' \<longrightarrow>
        exc_class (fromFirestoreError e p q) = UnavailableException)
   \<and> (fe_code e = ''not-found'' \<longrightarrow>
        exc_class (fromFirestoreError e p q) = NotFoundException)
   \<and> (fe_code e = ''already-exists'' \<longrightarrow>
        exc_class (fromFirestoreError e p q) = AlreadyExistsException)
   \<and> (fe_code e = ''cancelled'' \<longrightarrow>
        exc_class (fromFirestoreError e p q) = CancelledException)
   \<and> (fe_code e = ''deadline-exceeded'' \<longrightarrow>
        exc_class (fromFirestoreError e p q) = DeadlineExceededException)
   \<and> (fe_code e \<notin> {''permission-denied'', ''unavailable'', ''not-found'', ''already-exists'',
                     ''cancelled'', ''deadline-exceeded''} \<longrightarrow>
        exc_class (fromFirestoreError e p q) = GenericException)"
  by (intro conjI; simp add: fromFirestoreError_def new_exception_def Let_def)

theorem fromFirestoreError_total_witness:
  "exc_class (fromFirestoreError
      \<lparr>fe_message = ''offline'', fe_code = ''unavailable'', fe_stack = Some ''at x''\<rparr>
      (Some ''users'') None) = UnavailableException
   \<and> exc_class (fromFirestoreError
      \<lparr>fe_message = ''boom'', fe_code = ''internal'', fe_stack = None\<rparr>
      None None) = GenericException
   \<and> exc_message (fromFirestoreError
      \<lparr>fe_message = ''boom'', fe_code = ''internal'', fe_stack = None\<rparr>
      None None) = ''boom''"
  using fromFirestoreError_total
    [of "\<lparr>fe_message = ''offline'', fe_code = ''unavailable'', fe_stack = Some ''at x''\<rparr>"
        "Some ''users''" None]
    fromFirestoreError_total
    [of "\<lparr>fe_message = ''boom'', fe_code = ''internal'', fe_stack = None\<rparr>" None None]
  by simp

section \<open>docExists\<close>

text \<open>
  C10. For every document id and every behaviour of the remote read, \<^verbatim>\<open>docExists\<close>
  resolves to a boolean and never rejects; whenever building the reference or the read
  throws, it resolves to \<^verbatim>\<open>false\<close>, the value it gives for a document that is absent.
\<close>

theorem docExists_never_fails:
  "(\<exists>b. docExists st i ov = Resolved b)
   \<and> (\<forall>t. docExists st i ov \<noteq> Rejected t)
   \<and> ((\<exists>t. getDocRefById st i ov = Inl t) \<longrightarrow> docExists st i ov = Resolved False)
   \<and> (\<forall>r t. getDocRefById st i ov = Inr r \<and> getDoc st r = Inl t \<longrightarrow>
         docExists st i ov = Resolved False)
   \<and> (\<forall>r. getDocRefById st i ov = Inr r \<and> getDoc st r = Inr False \<longrightarrow>
         docExists st i ov = Resolved False)"
  by (auto simp: docExists_def split: sum.splits)

theorem docExists_never_fails_witness:
  "docExists
     \<lparr>getDocRefById = (\<lambda>i ov. Inr (''users/'' @ i)),
      getDoc = (\<lambda>r. Inl (Error ''permission-denied'' None))\<rparr> ''u1'' None = Resolved False
   \<and> docExists
     \<lparr>getDocRefById = (\<lambda>i ov. Inr (''users/'' @ i)),
      getDoc = (\<lambda>r. Inr False)\<rparr> ''u1'' None = Resolved False"
  using docExists_never_fails
    [of "\<lparr>getDocRefById = (\<lambda>i ov. Inr (''users/'' @ i)),
          getDoc = (\<lambda>r. Inl (Error ''permission-denied'' None))\<rparr>" "''u1''" None]
    docExists_never_fails
    [of "\<lparr>getDocRefById = (\<lambda>i ov. Inr (''users/'' @ i)),
          getDoc = (\<lambda>r. Inr False)\<rparr>" "''u1''" None]
  by simp

section \<open>Rollback\<close>




text \<open>
  Where the conditions above are not met, the hooks do not give back the mirror of before
  the call.
  \<^item> A hook seeded by \<^verbatim>\<open>initialValueLocator\<close> rolls back to the \<^verbatim>\<open>null\<close> of
    \<^verbatim>\<open>previousDocRef\<close>.
  \<^item> A \<^verbatim>\<open>beforeLocalUpdate\<close> that throws on \<^verbatim>\<open>null\<close> makes the rollback of a
    \<^verbatim>\<open>createDoc\<close> on an empty hook throw: the call rejects and the created document
    stays.
  \<^item> A callback of an earlier render restores the document of that render: with
    \<^verbatim>\<open>t1\<close> already completed in the state, the failed update of a callback that still
    sees the uncompleted \<^verbatim>\<open>t1\<close> puts the uncompleted one back.
  \<^item> \<^verbatim>\<open>createDoc\<close> of an id that is in the mirror rolls back by deleting it.
  \<^item> \<^verbatim>\<open>updateDocs\<close> with a transform that changes the id restores the requested id
    and leaves the entry written under the new id.
\<close>

lemma rollbacks_that_lose_the_previous_value:
  "hook_doc (useTurboDocument_init (Some doc_t1)) = Some doc_t1
   \<and> hook_doc (mirror (useTurboDocument_createDoc no_callbacks api_down signed_in ''t1''
        (\<lambda>vars. Inr doc_t1_done) (useTurboDocument_init (Some doc_t1)))) = None
   \<and> outcome (useTurboDocument_createDoc requires_document api_down signed_in ''t1''
        (\<lambda>vars. Inr doc_t1) (useTurboDocument_init None))
       = Rejected (Error ''document required'' None)
   \<and> hook_doc (mirror (useTurboDocument_createDoc requires_document api_down signed_in ''t1''
        (\<lambda>vars. Inr doc_t1) (useTurboDocument_init None))) = Some doc_t1
   \<and> mirror (useTurboCollection_updateDoc api_down signed_in ''t1''
        (\<lambda>c vars. Inr (c\<lparr>doc_fields := [(''title'', ''Buy oat milk'')]\<rparr>))
        [''t1'' \<mapsto> doc_t1] [''t1'' \<mapsto> doc_t1_done]) ''t1'' = Some doc_t1
   \<and> mirror (useTurboCollection_createDoc api_down signed_in (\<lambda>vars. Inr doc_t1_done)
        [''t1'' \<mapsto> doc_t1]) ''t1'' = None
   \<and> mirror (useTurboCollection_updateDocs api_down signed_in
        [(''t1'', \<lambda>c vars. Inr (c\<lparr>doc_id := ''t2''\<rparr>))]
        [''t1'' \<mapsto> doc_t1] [''t1'' \<mapsto> doc_t1]) ''t2''
       = Some (doc_t1\<lparr>doc_id := ''t2''\<rparr>)"
  by (simp add: useTurboDocument_createDoc_def useTurboDocument_init_def updateLocalState_def
      confirmOrRollback_def generateAuthVars_def createAuthVars_def signed_in_def
      optionalCall_def no_callbacks_def requires_document_def
      useTurboCollection_createDoc_def useTurboCollection_updateDoc_def
      useTurboCollection_updateDocs_def tryFindById_def
      stage_update_def failedResult_def setAll_def restoreAll_def
      api_down_def doc_t1_def doc_t1_done_def settle_def refail_def fail_def Let_def)

section \<open>Batch mutations\<close>

text \<open>
  What the batch mutations of the collection hook do when a staging step returns a failure
  or the commit throws, for a callback of the current render (its \<^verbatim>\<open>docsById\<close> agrees
  with the state at the ids of the request) whose batch is obtained and whose transforms
  and \<^verbatim>\<open>toJson\<close> return: the call resolves with a failure and the mirror is the map it
  was before the call,
  \<^item> for \<^verbatim>\<open>createDocs\<close> when no created id was in the mirror before the call;
  \<^item> for \<^verbatim>\<open>updateDocs\<close> when every id is found and every updated document carries an
    id of the request;
  \<^item> for \<^verbatim>\<open>deleteDocs\<close> when every id is found.
\<close>

lemma batch_failure_reverts_fresh_ids:
  "(createAuthVars a g = Inr vars \<and> map_throwing (\<lambda>def. def vars) defs = Inr newDocs
      \<and> api_writeBatch a = None
      \<and> (\<forall>d \<in> set newDocs. state (doc_id d) = None)
      \<and> ((\<exists>d \<in> set newDocs. isFail (api_createDocInBatch a d (doc_id d)))
           \<or> batch_commit a (map (\<lambda>d. BatchSet d (doc_id d)) newDocs) \<noteq> None) \<longrightarrow>
        mirror (useTurboCollection_createDocs a g defs state) = state
        \<and> (\<exists>f. outcome (useTurboCollection_createDocs a g defs state) = Resolved (Fail f)))
   \<and> (createAuthVars a g = Inr vars
      \<and> collect_updates docsById vars updates [] [] = Inr (prev, upd)
      \<and> (\<forall>i \<in> fst ` set updates. state i = docsById i)
      \<and> doc_id ` set upd \<subseteq> fst ` set updates
      \<and> api_writeBatch a = None
      \<and> map_throwing (stage_update a) upd = Inr results
      \<and> ((\<exists>r \<in> set results. isFail (fst r)) \<or> batch_commit a (map snd results) \<noteq> None) \<longrightarrow>
        mirror (useTurboCollection_updateDocs a g updates docsById state) = state
        \<and> (\<exists>f. outcome (useTurboCollection_updateDocs a g updates docsById state)
              = Resolved (Fail f)))
   \<and> (collect_deletes docsById ids [] = Inr prevd
      \<and> (\<forall>i \<in> set ids. state i = docsById i)
      \<and> api_writeBatch a = None
      \<and> ((\<exists>i \<in> set ids. isFail (api_deleteDocInBatch a i))
           \<or> batch_commit a (map BatchDelete ids) \<noteq> None) \<longrightarrow>
        mirror (useTurboCollection_deleteDocs a ids docsById state) = state
        \<and> (\<exists>f. outcome (useTurboCollection_deleteDocs a ids docsById state)
              = Resolved (Fail f)))"
proof (intro conjI impI; (elim conjE)?)
  show "mirror (useTurboCollection_createDocs a g defs state) = state"
    "\<exists>f. outcome (useTurboCollection_createDocs a g defs state) = Resolved (Fail f)"
    if "createAuthVars a g = Inr vars" "map_throwing (\<lambda>def. def vars) defs = Inr newDocs"
      "api_writeBatch a = None"
      "\<forall>d \<in> set newDocs. state (doc_id d) = None"
      "(\<exists>d \<in> set newDocs. isFail (api_createDocInBatch a d (doc_id d)))
         \<or> batch_commit a (map (\<lambda>d. BatchSet d (doc_id d)) newDocs) \<noteq> None"
    using createDocs_fail [where a = a and g = g and defs = defs and newDocs = newDocs
        and m = state and vars = vars] that
    by blast+
  show "mirror (useTurboCollection_updateDocs a g updates docsById state) = state"
    "\<exists>f. outcome (useTurboCollection_updateDocs a g updates docsById state) = Resolved (Fail f)"
    if "createAuthVars a g = Inr vars"
      "collect_updates docsById vars updates [] [] = Inr (prev, upd)"
      "\<forall>i \<in> fst ` set updates. state i = docsById i"
      "doc_id ` set upd \<subseteq> fst ` set updates"
      "api_writeBatch a = None"
      "map_throwing (stage_update a) upd = Inr results"
      "(\<exists>r \<in> set results. isFail (fst r)) \<or> batch_commit a (map snd results) \<noteq> None"
    using updateDocs_fail [where a = a and g = g and updates = updates and prev = prev
        and upd = upd and results = results and state = state and docsById = docsById
        and vars = vars] that
    by blast+
  show "mirror (useTurboCollection_deleteDocs a ids docsById state) = state"
    "\<exists>f. outcome (useTurboCollection_deleteDocs a ids docsById state) = Resolved (Fail f)"
    if "collect_deletes docsById ids [] = Inr prevd"
      "\<forall>i \<in> set ids. state i = docsById i"
      "api_writeBatch a = None"
      "(\<exists>i \<in> set ids. isFail (api_deleteDocInBatch a i))
         \<or> batch_commit a (map BatchDelete ids) \<noteq> None"
    using deleteDocs_fail [where a = a and ids = ids and prev = prevd and state = state
        and docsById = docsById] that
    by blast+
qed

text \<open>
  C2 (when a staging step or the commit of a batch mutation fails, every local change of
  the call is reverted: the mirror is as before the call for all affected identities) at
  \<^verbatim>\<open>createDocs\<close>, whose rollback deletes the ids it created instead of putting back
  what was there. With \<^verbatim>\<open>t1\<close> in the mirror, creating a document with that id while
  the commit fails resolves with a failure and leaves the mirror without \<^verbatim>\<open>t1\<close>;
  \<^verbatim>\<open>upsertDoc\<close> of the same document in the same situation puts the previous
  \<^verbatim>\<open>t1\<close> back.
\<close>

theorem createDocs_rollback_deletes_existing:
  "batch_commit api_down (map (\<lambda>d. BatchSet d (doc_id d)) [doc_t1_done])
     = Some (Error ''offline'' None)
   \<and> [''t1'' \<mapsto> doc_t1] ''t1'' = Some doc_t1
   \<and> outcome (useTurboCollection_createDocs api_down signed_in [\<lambda>vars. Inr doc_t1_done]
        [''t1'' \<mapsto> doc_t1])
       = Resolved (fail (Error ''offline'' None) (Some ''Batch Create Failed'')
           (Some ''Failed to commit batch create operation'') None)
   \<and> mirror (useTurboCollection_createDocs api_down signed_in [\<lambda>vars. Inr doc_t1_done]
        [''t1'' \<mapsto> doc_t1]) ''t1'' = None
   \<and> mirror (useTurboCollection_upsertDoc api_down signed_in ''t1'' (\<lambda>c vars. Inr doc_t1_done)
        [''t1'' \<mapsto> doc_t1] [''t1'' \<mapsto> doc_t1]) ''t1'' = Some doc_t1"
  by (simp add: useTurboCollection_createDocs_def useTurboCollection_upsertDoc_def
      createAuthVars_def signed_in_def tryFindById_def api_down_def doc_t1_done_def settle_def
      failedResult_def setAll_def deleteAll_def Let_def)

section \<open>Update and delete of a missing document\<close>

text \<open>
  Update and delete of a document that is not found resolve with a local failure, invoke
  no remote operation and leave the mirror as it is, in the collection hook, in the
  service and in \<^verbatim>\<open>updateDoc\<close> of the single-document hook (whose \<^verbatim>\<open>onError\<close>
  callback, if any, is taken to return).
\<close>

lemma missing_document_is_a_local_failure:
  "tryFindById docsById i = None \<Longrightarrow>
     remote_calls (useTurboCollection_updateDoc a g i udef docsById state) = []
     \<and> mirror (useTurboCollection_updateDoc a g i udef docsById state) = state
     \<and> (\<exists>f. outcome (useTurboCollection_updateDoc a g i udef docsById state)
           = Resolved (Fail f))"
  "tryFindById docsById i = None \<Longrightarrow>
     remote_calls (useTurboCollection_deleteDoc a i docsById state) = []
     \<and> mirror (useTurboCollection_deleteDoc a i docsById state) = state
     \<and> (\<exists>f. outcome (useTurboCollection_deleteDoc a i docsById state) = Resolved (Fail f))"
  "previousDocRef s = None \<Longrightarrow>
   optionalCall (hook_onError opts)
     (new_exception BaseException ''Cannot update: document does not exist'' ''not-found''
        (Some documentId) None None) = None \<Longrightarrow>
     remote_calls (useTurboDocument_updateDoc opts a g documentId udef s) = []
     \<and> mirror (useTurboDocument_updateDoc opts a g documentId udef s) = s
     \<and> (\<exists>f. outcome (useTurboDocument_updateDoc opts a g documentId udef s)
           = Resolved (Fail f))"
  "remote_calls (TurboDocumentService_updateDoc cbs a g udef n None) = []
     \<and> mirror (TurboDocumentService_updateDoc cbs a g udef n None) = None
     \<and> (\<exists>f. outcome (TurboDocumentService_updateDoc cbs a g udef n None) = Resolved (Fail f))"
  "remote_calls (TurboDocumentService_deleteDoc cbs a n None) = []
     \<and> mirror (TurboDocumentService_deleteDoc cbs a n None) = None
     \<and> (\<exists>f. outcome (TurboDocumentService_deleteDoc cbs a n None) = Resolved (Fail f))"
  using col_missing [of docsById i a g udef state]
    hook_updateDoc_missing [of s opts documentId a g udef]
    svc_missing [of cbs a g udef n]
  by simp_all

text \<open>
  C3 (update and delete of an identity absent from the mirror resolve with a not-found
  failure, invoke no remote operation and leave the mirror unchanged) at
  \<^verbatim>\<open>deleteDoc\<close> of the single-document hook, which has no such check: on a hook
  that holds no document, with a store that works, it invokes the remote delete and
  resolves with a success.
\<close>

theorem useTurboDocument_deleteDoc_missing_calls_remote:
  "hook_doc (useTurboDocument_init None) = None
   \<and> previousDocRef (useTurboDocument_init None) = None
   \<and> remote_calls (useTurboDocument_deleteDoc no_callbacks api_up ''t1''
        (useTurboDocument_init None)) = [DeleteDoc ''t1'']
   \<and> outcome (useTurboDocument_deleteDoc no_callbacks api_up ''t1''
        (useTurboDocument_init None)) = Resolved (Success ())"
  by (simp add: useTurboDocument_deleteDoc_def useTurboDocument_init_def api_up_def settle_def
      updateLocalState_def confirmOrRollback_def optionalCall_def no_callbacks_def Let_def)

section \<open>Upsert\<close>




text \<open>
  Where the mutation does not read the mirror it writes to, the transform receives
  something else: \<^verbatim>\<open>null\<close> for the empty id even when the state has an entry under
  it, \<^verbatim>\<open>null\<close> in a hook seeded by \<^verbatim>\<open>initialValueLocator\<close>, and the document of
  an earlier render in a callback of that render.
\<close>

lemma upsertDoc_reads_beside_the_mirror:
  "remote_calls (useTurboCollection_upsertDoc api_up signed_in []
        (\<lambda>c vars. case c of None \<Rightarrow> Inr doc_t1 | Some p \<Rightarrow> Inr doc_t1_done)
        [[] \<mapsto> doc_t2] [[] \<mapsto> doc_t2]) = [CreateDoc doc_t1 [] True]
   \<and> remote_calls (useTurboDocument_upsertDoc no_callbacks api_up signed_in ''t1''
        (\<lambda>c vars. case c of None \<Rightarrow> Inr doc_t1 | Some p \<Rightarrow> Inr doc_t1_done)
        (useTurboDocument_init (Some doc_t1))) = [CreateDoc doc_t1 ''t1'' True]
   \<and> remote_calls (useTurboCollection_upsertDoc api_up signed_in ''t1''
        (\<lambda>c vars. case c of None \<Rightarrow> Inr doc_t1 | Some p \<Rightarrow> Inr doc_t1_done)
        Map.empty [''t1'' \<mapsto> doc_t1]) = [CreateDoc doc_t1 ''t1'' True]"
  by (simp add: useTurboCollection_upsertDoc_def useTurboDocument_upsertDoc_def
      useTurboDocument_init_def updateLocalState_def confirmOrRollback_def
      createAuthVars_def generateAuthVars_def signed_in_def tryFindById_def optionalCall_def
      no_callbacks_def api_up_def settle_def Let_def)

section \<open>Faults and results\<close>




text \<open>
  The other calls of the hooks that reject: a \<^verbatim>\<open>getUserId\<close> that throws, an id
  generator that throws, and a \<^verbatim>\<open>beforeLocalUpdate\<close> that throws on \<^verbatim>\<open>null\<close>,
  which makes \<^verbatim>\<open>deleteDoc\<close> of the single-document hook reject before anything is
  written or sent.
\<close>

lemma hooks_reject_when_a_callback_throws:
  "outcome (useTurboCollection_createDoc api_up (Inl (Error ''no session'' None))
      (\<lambda>vars. Inr doc_t1) Map.empty) = Rejected (Error ''no session'' None)
   \<and> outcome (useTurboDocument_upsertDoc no_callbacks
        (api_up\<lparr>api_genId := Inl (Error ''bad path'' None)\<rparr>) signed_in ''t1''
        (\<lambda>c vars. Inr doc_t1) (useTurboDocument_init None))
       = Rejected (Error ''bad path'' None)
   \<and> outcome (useTurboDocument_deleteDoc requires_document api_up ''t1''
        \<lparr>hook_doc = Some doc_t1, previousDocRef = Some doc_t1\<rparr>)
       = Rejected (Error ''document required'' None)
   \<and> remote_calls (useTurboDocument_deleteDoc requires_document api_up ''t1''
        \<lparr>hook_doc = Some doc_t1, previousDocRef = Some doc_t1\<rparr>) = []
   \<and> hook_doc (mirror (useTurboDocument_deleteDoc requires_document api_up ''t1''
        \<lparr>hook_doc = Some doc_t1, previousDocRef = Some doc_t1\<rparr>)) = Some doc_t1"
  by (simp add: useTurboCollection_createDoc_def useTurboDocument_upsertDoc_def
      useTurboDocument_deleteDoc_def useTurboDocument_init_def updateLocalState_def
      createAuthVars_def generateAuthVars_def signed_in_def optionalCall_def
      requires_document_def api_up_def settle_def Let_def)

section \<open>Retry bound\<close>




section \<open>Sign-out\<close>

text \<open>
  C5, as the code has it. When the authentication observation reports absence,
  \<^item> a mounted \<^verbatim>\<open>useAuthSync\<close> ends with no cached subject, a retry count of 0 and no
    retry pending (the timeout of the ref is cancelled and the ref cleared); it has
    released the live subscription, if any, exactly once and then invoked the data
    callback exactly once, with \<^verbatim>\<open>(null, null)\<close> (and after it \<^verbatim>\<open>onDone\<close>, when
    given, with a count of 0);
  \<^item> \<^verbatim>\<open>FirebaseAuthService\<close> ends with no cached subject and no subscription; it has
    released the live subscription, if any, exactly once and then invoked the data
    callback exactly once, with \<^verbatim>\<open>(null, null)\<close>; its retry count and its retry
    timeout are left as they were.
\<close>

theorem sign_out_clears_state:
  "(isMountedRef s \<and> s' = authStateChanged opts res None s \<longrightarrow>
      cachedUserId s' = None \<and> retryCount s' = 0 \<and> \<not> isRetrying s'
      \<and> retryTimeoutRef s' = None
      \<and> timers s' = (case retryTimeoutRef s of Some t \<Rightarrow> removeAll t (timers s) | None \<Rightarrow> timers s)
      \<and> streamUnsubscribeRef s' = None
      \<and> trace s' =
          trace s @ (case streamUnsubscribeRef s of Some h \<Rightarrow> [Unsubscribed h] | None \<Rightarrow> [])
            @ [OnData None None]
            @ (if has_onDone opts then [OnDone 0 (maxRetries opts)] else []))
   \<and> (f' = authCallback fres None f \<longrightarrow>
      fas_cachedUserId f' = None \<and> subscription f' = None
      \<and> fas_trace f' =
          fas_trace f @ (case subscription f of Some h \<Rightarrow> [Unsubscribed h] | None \<Rightarrow> [])
            @ [OnData None None]
      \<and> nrOfRetry f' = nrOfRetry f \<and> retryTimer f' = retryTimer f
      \<and> fas_timers f' = fas_timers f)"
proof (rule conjI; rule impI)
  assume a: "isMountedRef s \<and> s' = authStateChanged opts res None s"
  then have eq: "s' = handleSignOut opts (s\<lparr>currentUserRef := None\<rparr>)"
    by (simp add: authStateChanged_def Let_def)
  from a have "isMountedRef (s\<lparr>currentUserRef := None\<rparr>)" by simp
  from handleSignOut_props [OF this, of opts] eq
  show "cachedUserId s' = None \<and> retryCount s' = 0 \<and> \<not> isRetrying s'
      \<and> retryTimeoutRef s' = None
      \<and> timers s' = (case retryTimeoutRef s of Some t \<Rightarrow> removeAll t (timers s) | None \<Rightarrow> timers s)
      \<and> streamUnsubscribeRef s' = None
      \<and> trace s' =
          trace s @ (case streamUnsubscribeRef s of Some h \<Rightarrow> [Unsubscribed h] | None \<Rightarrow> [])
            @ [OnData None None]
            @ (if has_onDone opts then [OnDone 0 (maxRetries opts)] else [])"
    by (simp split: option.splits)
next
  assume "f' = authCallback fres None f"
  with authCallback_signOut [of fres f]
  show "fas_cachedUserId f' = None \<and> subscription f' = None
      \<and> fas_trace f' =
          fas_trace f @ (case subscription f of Some h \<Rightarrow> [Unsubscribed h] | None \<Rightarrow> [])
            @ [OnData None None]
      \<and> nrOfRetry f' = nrOfRetry f \<and> retryTimer f' = retryTimer f
      \<and> fas_timers f' = fas_timers f"
    by simp
qed

theorem sign_out_clears_state_witness:
  "isMountedRef (authStateChanged sync_options (Inr 7) (Some ''u1'') useAuthSync_init)
   \<and> cachedUserId (authStateChanged sync_options (Inr 8) None
        (authStateChanged sync_options (Inr 7) (Some ''u1'') useAuthSync_init)) = None
   \<and> trace (authStateChanged sync_options (Inr 8) None
        (authStateChanged sync_options (Inr 7) (Some ''u1'') useAuthSync_init))
       = [Subscribed 7, Unsubscribed 7, OnData None None, OnDone 0 3]
   \<and> fas_trace (authCallback (Inr 3) None fas_streaming)
       = [AuthSubscribed 1, OnAuth ''u1'', Subscribed 2, Unsubscribed 2, OnData None None]"
proof -
  let ?s = "authStateChanged sync_options (Inr 7) (Some ''u1'') useAuthSync_init"
  have s: "isMountedRef ?s" "streamUnsubscribeRef ?s = Some 7" "trace ?s = [Subscribed 7]"
    by (simp_all add: authStateChanged_def setupStream_def cleanupStream_def
        useAuthSync_init_def sync_options_def Let_def)
  from sign_out_clears_state
    [where s = ?s and s' = "authStateChanged sync_options (Inr 8) None ?s"
      and opts = sync_options and res = "Inr 8"
      and f = fas_streaming and f' = "authCallback (Inr 3) None fas_streaming"
      and fres = "Inr 3"] s
  show ?thesis by (simp add: fas_streaming_fields sync_options_def)
qed

text \<open>
  The claim as stated fails on the service: a sign-out after the second of two stream
  errors (the first one retried) leaves the retry count at 1 and the retry timeout pending.
\<close>

theorem FirebaseAuthService_sign_out_keeps_retry_state:
  "nrOfRetry (authCallback (Inr 3) None
      (streamErrors 2 1 2 ''u1'' (Error ''offline'' None) fas_streaming)) = 1
   \<and> retryTimer (authCallback (Inr 3) None
      (streamErrors 2 1 2 ''u1'' (Error ''offline'' None) fas_streaming)) \<noteq> None
   \<and> fas_timers (authCallback (Inr 3) None
      (streamErrors 2 1 2 ''u1'' (Error ''offline'' None) fas_streaming)) \<noteq> []"
proof -
  have two: "(2::nat) = Suc 1" by simp
  have "nrOfRetry fas_streaming + 1 < maxNrOfRetry"
    by (simp add: maxNrOfRetry_def fas_streaming_fields)
  from streamErrors_wait [OF fas_streaming_fields(2,3) this, of 1 2 "''u1''" "Error ''offline'' None"]
  have "nrOfRetry (streamErrors 2 1 2 ''u1'' (Error ''offline'' None) fas_streaming) = 1
    \<and> (\<exists>t. retryTimer (streamErrors 2 1 2 ''u1'' (Error ''offline'' None) fas_streaming) = Some t
        \<and> fas_timers (streamErrors 2 1 2 ''u1'' (Error ''offline'' None) fas_streaming) = [t])"
    unfolding two by (simp add: fas_streaming_fields)
  with authCallback_signOut
    [of "Inr 3" "streamErrors 2 1 2 ''u1'' (Error ''offline'' None) fas_streaming"]
  show ?thesis by auto
qed

section \<open>Starting a subscription twice\<close>




end
